theory Spec2Isabelle
  imports Main "HOL-Library.Word"
begin

chapter \<open>The left panel of the form builder\<close>

text \<open>
  The three variants of the React component \<^verbatim>\<open>LeftPanel\<close>: the generator
  (\<^verbatim>\<open>client/src/components/left-panel.tsx\<close>), the generator with an embedded JSON editor
  and the unified chat (both in \<^verbatim>\<open>part_000\<close>). Modelled are their event handlers, the
  theme manager they share, and the chat as a machine of user events and settling calls.
\<close>

section \<open>Text\<close>

text \<open>
  A JavaScript string is a sequence of UTF-16 code units. Literals of the source that are
  plain ASCII are written \<open>js ''...''\<close>; other characters are given by their code unit.
\<close>

type_synonym jsstring = "16 word list"

definition js :: "string \<Rightarrow> jsstring" where
  "js cs = map (\<lambda>c. word_of_nat (of_char c)) cs"

text \<open>
  \<^verbatim>\<open>String.prototype.trim\<close> strips the code units that ECMAScript calls WhiteSpace or
  LineTerminator from both ends. \<^verbatim>\<open>!text.trim()\<close> holds when nothing is left, the empty
  string being the only falsy string.
\<close>

definition isWhiteSpace :: "16 word \<Rightarrow> bool" where
  "isWhiteSpace c \<longleftrightarrow>
     c \<in> set [0x0009, 0x000A, 0x000B, 0x000C, 0x000D, 0x0020, 0x00A0, 0x1680,
               0x2028, 0x2029, 0x202F, 0x205F, 0x3000, 0xFEFF]
     \<or> (0x2000 \<le> c \<and> c \<le> 0x200A)"

definition trim :: "jsstring \<Rightarrow> jsstring" where
  "trim s = rev (dropWhile isWhiteSpace (rev (dropWhile isWhiteSpace s)))"

definition blank :: "jsstring \<Rightarrow> bool" where
  "blank s \<longleftrightarrow> trim s = []"

section \<open>State of the panel and of what it touches\<close>

text \<open>
  \<^verbatim>\<open>toast({title, description, variant})\<close>: the notifications are kept in the order in which
  they were emitted; \<open>destructive\<close> stands for \<^verbatim>\<open>variant: "destructive"\<close>.
\<close>

record toast =
  title :: jsstring
  description :: jsstring
  destructive :: bool

text \<open>
  The two calls of \<^verbatim>\<open>apiRequest\<close>: POST \<^verbatim>\<open>/api/prompt\<close> with body \<^verbatim>\<open>{prompt}\<close> and POST
  \<^verbatim>\<open>/api/edit-json\<close> with body \<^verbatim>\<open>{json, instruction}\<close>. The form configuration is an
  opaque value of type \<open>'c\<close>.
\<close>

datatype 'c request = Prompt jsstring | EditJson 'c jsstring

text \<open>
  What a \<^verbatim>\<open>catch\<close> clause can receive: an \<^verbatim>\<open>Error\<close> object with its message, or any other
  thrown value (\<^verbatim>\<open>error instanceof Error\<close> is false).
\<close>

datatype thrown = ErrorObject jsstring | OtherValue

text \<open>
  What the awaited \<^verbatim>\<open>apiRequest\<close> does: it never settles (there is no timeout), it resolves
  with a body whose \<^verbatim>\<open>config\<close> field is a configuration or is missing (falsy), or it
  rejects.
\<close>

datatype 'c outcome = Pending | Resolved "'c option" | Rejected thrown

text \<open>How a function body ends: it returns, it throws, or it stays suspended at an await.\<close>

datatype completion = Returned | Threw thrown | Stalled

text \<open>
  The state shared by the three variants of \<^verbatim>\<open>LeftPanel\<close>: the hooks \<^verbatim>\<open>prompt\<close>,
  \<^verbatim>\<open>isGenerating\<close>, \<^verbatim>\<open>statusText\<close>, \<^verbatim>\<open>statusColor\<close>; the shared form context
  (\<open>formConfig\<close>, with the values passed to \<^verbatim>\<open>setFormConfig\<close> in \<open>contextWrites\<close>); the
  notifications emitted and the requests issued so far; the class list of the document
  root, the value last passed for its \<^verbatim>\<open>--font-primary\<close> property (\<open>None\<close>: none
  yet) and the \<^verbatim>\<open>theme-preset\<close> key of the local storage (\<open>None\<close> is \<^verbatim>\<open>null\<close>:
  nothing stored). A storage that is full or disabled, wall-clock timestamps and console
  output are outside this model.
\<close>

text \<open>
  What reading a property of an object literal gives: the value of an own property, a
  member inherited from \<^verbatim>\<open>Object.prototype\<close> (kept by its name), or \<^verbatim>\<open>undefined\<close>.
\<close>

datatype looked = Own jsstring | Inherited jsstring | Undefined

record 'c core =
  prompt :: jsstring
  isGenerating :: bool
  statusText :: jsstring
  statusColor :: jsstring
  formConfig :: "'c option"
  contextWrites :: "'c list"
  toasts :: "toast list"
  requests :: "'c request list"
  classList :: "jsstring list"
  fontPrimary :: "looked option"
  themePreset :: "jsstring option"

text \<open>
  A handler reads the hooks from the closure of the render that created it and changes
  them through setters only. It is modelled as the list of state updates it performs, in
  program order, given the closure values it reads and the outcome of the call it awaits.
  \<open>run\<close> gives the state after all of them, \<open>points\<close> the state after each of them.
\<close>

fun run :: "('s \<Rightarrow> 's) list \<Rightarrow> 's \<Rightarrow> 's" where
  "run [] s = s"
| "run (u # us) s = run us (u s)"

fun points :: "('s \<Rightarrow> 's) list \<Rightarrow> 's \<Rightarrow> 's list" where
  "points [] s = []"
| "points (u # us) s = u s # points us (u s)"

definition setPrompt :: "jsstring \<Rightarrow> ('c, 'z) core_scheme \<Rightarrow> ('c, 'z) core_scheme" where
  "setPrompt v s = s\<lparr>prompt := v\<rparr>"

definition setIsGenerating :: "bool \<Rightarrow> ('c, 'z) core_scheme \<Rightarrow> ('c, 'z) core_scheme" where
  "setIsGenerating v s = s\<lparr>isGenerating := v\<rparr>"

definition setStatusText :: "jsstring \<Rightarrow> ('c, 'z) core_scheme \<Rightarrow> ('c, 'z) core_scheme" where
  "setStatusText v s = s\<lparr>statusText := v\<rparr>"

definition setStatusColor :: "jsstring \<Rightarrow> ('c, 'z) core_scheme \<Rightarrow> ('c, 'z) core_scheme" where
  "setStatusColor v s = s\<lparr>statusColor := v\<rparr>"

definition setFormConfig :: "'c \<Rightarrow> ('c, 'z) core_scheme \<Rightarrow> ('c, 'z) core_scheme" where
  "setFormConfig v s = s\<lparr>formConfig := Some v, contextWrites := contextWrites s @ [v]\<rparr>"

definition emitToast :: "toast \<Rightarrow> ('c, 'z) core_scheme \<Rightarrow> ('c, 'z) core_scheme" where
  "emitToast t s = s\<lparr>toasts := toasts s @ [t]\<rparr>"

definition apiRequest :: "'c request \<Rightarrow> ('c, 'z) core_scheme \<Rightarrow> ('c, 'z) core_scheme" where
  "apiRequest r s = s\<lparr>requests := requests s @ [r]\<rparr>"

section \<open>Theme manager\<close>

text \<open>
  \<^verbatim>\<open>classList.remove(...)\<close> and \<^verbatim>\<open>classList.add(token)\<close> work on an ordered set of
  tokens. The DOM validates the token before it adds it: \<^verbatim>\<open>add\<close> throws a
  \<^verbatim>\<open>SyntaxError\<close> for the empty token and an \<^verbatim>\<open>InvalidCharacterError\<close> for a token
  that contains ASCII white space (tab, line feed, form feed, carriage return, space).
\<close>

datatype domException = SyntaxError | InvalidCharacterError

definition asciiWhitespace :: "16 word \<Rightarrow> bool" where
  "asciiWhitespace c \<longleftrightarrow> c \<in> set [0x0009, 0x000A, 0x000C, 0x000D, 0x0020]"

definition classList_rejects :: "jsstring \<Rightarrow> domException option" where
  "classList_rejects token =
     (if token = [] then Some SyntaxError
      else if list_ex asciiWhitespace token then Some InvalidCharacterError
      else None)"

definition classList_remove :: "jsstring list \<Rightarrow> ('c, 'z) core_scheme \<Rightarrow> ('c, 'z) core_scheme" where
  "classList_remove tokens s = s\<lparr>classList := filter (\<lambda>t. t \<notin> set tokens) (classList s)\<rparr>"

text \<open>The effect of \<^verbatim>\<open>classList.add(token)\<close> for a token that is not rejected.\<close>

definition classList_add :: "jsstring \<Rightarrow> ('c, 'z) core_scheme \<Rightarrow> ('c, 'z) core_scheme" where
  "classList_add token s =
     s\<lparr>classList := (if token \<in> set (classList s) then classList s else classList s @ [token])\<rparr>"

text \<open>
  \<^verbatim>\<open>localStorage.setItem("theme-preset", v)\<close> and
  \<^verbatim>\<open>style.setProperty("--font-primary", v)\<close>.
\<close>

definition localStorage_setItem :: "jsstring \<Rightarrow> ('c, 'z) core_scheme \<Rightarrow> ('c, 'z) core_scheme" where
  "localStorage_setItem v s = s\<lparr>themePreset := Some v\<rparr>"

definition style_setProperty :: "looked \<Rightarrow> ('c, 'z) core_scheme \<Rightarrow> ('c, 'z) core_scheme" where
  "style_setProperty v s = s\<lparr>fontPrimary := Some v\<rparr>"

definition themes :: "jsstring list" where
  "themes = [js ''modern'', js ''classic'', js ''elegant'', js ''minimalist'', js ''vibrant'']"

definition themeMarkers :: "jsstring list" where
  "themeMarkers = [js ''theme-modern'', js ''theme-classic'', js ''theme-elegant'',
                   js ''theme-minimalist'', js ''theme-vibrant'', js ''dark'']"

text \<open>
  The object literal \<^verbatim>\<open>fontMap\<close> with its five own properties, and the read
  \<^verbatim>\<open>fontMap[themeName]\<close>: an own property first, then the members every object literal
  inherits from \<^verbatim>\<open>Object.prototype\<close> (those of ECMAScript, its Annex B included), and
  \<^verbatim>\<open>undefined\<close> for any other key.
\<close>

definition fontMap :: "(jsstring \<times> jsstring) list" where
  "fontMap =
     [(js ''modern'', [0x27] @ js ''Poppins'' @ [0x27] @ js '', sans-serif''),
      (js ''classic'', [0x27] @ js ''Merriweather'' @ [0x27] @ js '', serif''),
      (js ''elegant'', [0x27] @ js ''Playfair Display'' @ [0x27] @ js '', serif''),
      (js ''minimalist'', [0x27] @ js ''Inter'' @ [0x27] @ js '', sans-serif''),
      (js ''vibrant'', [0x27] @ js ''Montserrat'' @ [0x27] @ js '', sans-serif'')]"

definition objectPrototype :: "jsstring list" where
  "objectPrototype =
     [js ''constructor'', js ''hasOwnProperty'', js ''isPrototypeOf'',
      js ''propertyIsEnumerable'', js ''toLocaleString'', js ''toString'', js ''valueOf'',
      js ''__proto__'', js ''__defineGetter__'', js ''__defineSetter__'',
      js ''__lookupGetter__'', js ''__lookupSetter__'']"

definition getProperty :: "(jsstring \<times> jsstring) list \<Rightarrow> jsstring \<Rightarrow> looked" where
  "getProperty obj key =
     (case map_of obj key of
        Some v \<Rightarrow> Own v
      | None \<Rightarrow> if key \<in> set objectPrototype then Inherited key else Undefined)"

text \<open>
  \<^verbatim>\<open>applyTheme\<close>: the updates it performs and what it throws, if it does. When
  \<^verbatim>\<open>classList.add\<close> rejects the token, the markers are already removed and nothing after
  the throw runs.
\<close>

type_synonym ('c, 'z) themeScript =
  "(('c, 'z) core_scheme \<Rightarrow> ('c, 'z) core_scheme) list \<times> domException option"

definition applyTheme :: "jsstring \<Rightarrow> ('c, 'z) themeScript" where
  "applyTheme themeName =
     (case classList_rejects (js ''theme-'' @ themeName) of
        Some exception \<Rightarrow> ([classList_remove themeMarkers], Some exception)
      | None \<Rightarrow>
          ([classList_remove themeMarkers,
            classList_add (js ''theme-'' @ themeName),
            localStorage_setItem themeName,
            style_setProperty (getProperty fontMap themeName),
            emitToast \<lparr>title = js ''Theme Changed'',
                       description = js ''Applied '' @ themeName @ js '' theme and font'',
                       destructive = False\<rparr>],
           None))"

text \<open>
  The mount effect: \<^verbatim>\<open>localStorage.getItem("theme-preset") || "modern"\<close> reads the storage
  as it is when the effect runs; \<^verbatim>\<open>||\<close> takes its right operand when the left one is
  \<^verbatim>\<open>null\<close> or the empty string. The effect throws what \<^verbatim>\<open>applyTheme\<close> throws. The
  stylesheet links the effect appends to the document head are not part of the state.
\<close>

definition savedTheme :: "('c, 'z) core_scheme \<Rightarrow> jsstring" where
  "savedTheme s =
     (case themePreset s of
        None \<Rightarrow> js ''modern''
      | Some v \<Rightarrow> if v = [] then js ''modern'' else v)"

definition useEffect_theme :: "('c, 'z) core_scheme \<Rightarrow> ('c, 'z) themeScript" where
  "useEffect_theme s = applyTheme (savedTheme s)"

section \<open>The generator of \<^verbatim>\<open>client/src/components/left-panel.tsx\<close>\<close>

text \<open>\<^verbatim>\<open>error instanceof Error ? error.message : fallback\<close>\<close>

definition messageOr :: "thrown \<Rightarrow> jsstring \<Rightarrow> jsstring" where
  "messageOr error fallback = (case error of ErrorObject m \<Rightarrow> m | OtherValue \<Rightarrow> fallback)"

definition invalidResponse :: thrown where
  "invalidResponse = ErrorObject (js ''Invalid response from server'')"

text \<open>
  \<^verbatim>\<open>handleGenerateForm\<close> reads \<^verbatim>\<open>prompt\<close> from its closure. The \<^verbatim>\<open>catch\<close> and
  \<^verbatim>\<open>finally\<close> blocks run when the awaited call settles; while it is pending nothing
  after the await runs.
\<close>

definition generateFailed :: "thrown \<Rightarrow> (('c, 'z) core_scheme \<Rightarrow> ('c, 'z) core_scheme) list" where
  "generateFailed error =
     [setStatusText (js ''Form generation failed''),
      setStatusColor (js ''bg-red-500''),
      emitToast \<lparr>title = js ''Error'',
                 description = messageOr error (js ''Failed to generate form''),
                 destructive = True\<rparr>]"

definition handleGenerateForm :: "jsstring \<Rightarrow> 'c outcome \<Rightarrow> (('c, 'z) core_scheme \<Rightarrow> ('c, 'z) core_scheme) list" where
  "handleGenerateForm p out =
     (if blank p then
        [emitToast \<lparr>title = js ''Error'', description = js ''Please enter a prompt'',
                    destructive = True\<rparr>]
      else
        [setIsGenerating True,
         setStatusText (js ''Generating form...''),
         setStatusColor (js ''bg-yellow-500''),
         apiRequest (Prompt p)] @
        (case out of
           Pending \<Rightarrow> []
         | Resolved (Some config) \<Rightarrow>
             [setFormConfig config,
              setStatusText (js ''Form generated successfully''),
              setStatusColor (js ''bg-green-500''),
              emitToast \<lparr>title = js ''Success'',
                         description = js ''Form configuration generated successfully'',
                         destructive = False\<rparr>] @
             [setIsGenerating False]
         | Resolved None \<Rightarrow> generateFailed invalidResponse @ [setIsGenerating False]
         | Rejected error \<Rightarrow> generateFailed error @ [setIsGenerating False]))"

text \<open>
  The only call of \<^verbatim>\<open>handleGenerateForm\<close> is the click handler of the button "Generate
  Form", which is \<^verbatim>\<open>disabled={isGenerating || !prompt.trim()}\<close>.
\<close>

definition clickGenerate ::
  "'c outcome \<Rightarrow> ('c, 'z) core_scheme \<Rightarrow> (('c, 'z) core_scheme \<Rightarrow> ('c, 'z) core_scheme) list" where
  "clickGenerate out s =
     (if isGenerating s \<or> blank (prompt s) then [] else handleGenerateForm (prompt s) out)"

section \<open>The variant with an embedded JSON editor (second component of \<^verbatim>\<open>part_000\<close>)\<close>

text \<open>
  Its chat messages are \<^verbatim>\<open>{role, content}\<close>. Generated and edited configurations are staged
  in \<^verbatim>\<open>generatedConfig\<close> and \<^verbatim>\<open>editedConfig\<close>; only the button "Apply Changes to Form"
  writes to the shared context.
\<close>

datatype role = User | Assistant | System

record 'c editor_panel = "'c core" +
  generatedConfig :: "'c option"
  editedConfig :: "'c option"
  editorChatHistory :: "(role \<times> jsstring) list"
  showEditor :: bool
  chatInput :: jsstring

definition setGeneratedConfig :: "'c option \<Rightarrow> 'c editor_panel \<Rightarrow> 'c editor_panel" where
  "setGeneratedConfig v s = s\<lparr>generatedConfig := v\<rparr>"

definition setEditedConfig :: "'c option \<Rightarrow> 'c editor_panel \<Rightarrow> 'c editor_panel" where
  "setEditedConfig v s = s\<lparr>editedConfig := v\<rparr>"

definition setEditorChatHistory ::
  "((role \<times> jsstring) list \<Rightarrow> (role \<times> jsstring) list) \<Rightarrow> 'c editor_panel \<Rightarrow> 'c editor_panel" where
  "setEditorChatHistory f s = s\<lparr>editorChatHistory := f (editorChatHistory s)\<rparr>"

definition setShowEditor :: "bool \<Rightarrow> 'c editor_panel \<Rightarrow> 'c editor_panel" where
  "setShowEditor v s = s\<lparr>showEditor := v\<rparr>"

definition setChatInput :: "jsstring \<Rightarrow> 'c editor_panel \<Rightarrow> 'c editor_panel" where
  "setChatInput v s = s\<lparr>chatInput := v\<rparr>"

definition editor_handleGenerateForm :: "jsstring \<Rightarrow> 'c outcome \<Rightarrow> ('c editor_panel \<Rightarrow> 'c editor_panel) list" where
  "editor_handleGenerateForm p out =
     (if blank p then
        [emitToast \<lparr>title = js ''Error'', description = js ''Please enter a prompt'',
                    destructive = True\<rparr>]
      else
        [setIsGenerating True,
         setStatusText (js ''Generating form...''),
         setStatusColor (js ''bg-yellow-500''),
         apiRequest (Prompt p)] @
        (case out of
           Pending \<Rightarrow> []
         | Resolved (Some config) \<Rightarrow>
             [setGeneratedConfig (Some config),
              setEditedConfig (Some config),
              setEditorChatHistory (\<lambda>h.
                [(Assistant, js ''Here'' @ [0x2019] @
                    js ''s your initial JSON. You can now ask me to tweak it.'')]),
              setShowEditor True,
              setStatusText (js ''Form generated successfully''),
              setStatusColor (js ''bg-green-500''),
              emitToast \<lparr>title = js ''Success'',
                         description = js ''Form configuration generated successfully'',
                         destructive = False\<rparr>] @
             [setIsGenerating False]
         | Resolved None \<Rightarrow> generateFailed invalidResponse @ [setIsGenerating False]
         | Rejected error \<Rightarrow> generateFailed error @ [setIsGenerating False]))"

text \<open>
  \<^verbatim>\<open>handleChatSend\<close> reads \<^verbatim>\<open>editedConfig\<close> from its closure. It stores \<^verbatim>\<open>res.config\<close>
  as it comes, without checking that the field is there.
\<close>

definition handleChatSend :: "'c option \<Rightarrow> jsstring \<Rightarrow> 'c outcome \<Rightarrow> ('c editor_panel \<Rightarrow> 'c editor_panel) list" where
  "handleChatSend edited userText out =
     (case edited of
        None \<Rightarrow> []
      | Some json \<Rightarrow>
          if blank userText then []
          else
            [setEditorChatHistory (\<lambda>h. h @ [(User, userText)]),
             apiRequest (EditJson json userText)] @
            (case out of
               Pending \<Rightarrow> []
             | Resolved config \<Rightarrow>
                 [setEditedConfig config,
                  setEditorChatHistory (\<lambda>h. h @
                    [(Assistant, [0x2705] @ js '' Done! Here'' @ [0x2019] @
                        js ''s the updated JSON.'')])]
             | Rejected err \<Rightarrow>
                 [emitToast \<lparr>title = js ''Error'',
                             description = js ''Failed to apply your edit.'',
                             destructive = True\<rparr>]))"

text \<open>
  The controls of this variant. The button "Generate Form" is
  \<^verbatim>\<open>disabled={isGenerating || !prompt.trim()}\<close>. The editor is there while
  \<^verbatim>\<open>showEditor\<close> holds; its Enter key (without Shift) and its button "Send" both run
  \<^verbatim>\<open>handleChatSend(chatInput); setChatInput("")\<close>: the handler up to its await, then the
  clearing of the input, and the rest of the handler when the call settles.
\<close>

definition editor_clickGenerate ::
  "'c outcome \<Rightarrow> 'c editor_panel \<Rightarrow> ('c editor_panel \<Rightarrow> 'c editor_panel) list" where
  "editor_clickGenerate out s =
     (if isGenerating s \<or> blank (prompt s) then []
      else editor_handleGenerateForm (prompt s) out)"

definition sendChatInput ::
  "'c outcome \<Rightarrow> 'c editor_panel \<Rightarrow> ('c editor_panel \<Rightarrow> 'c editor_panel) list" where
  "sendChatInput out s =
     (if showEditor s then
        (let started = handleChatSend (editedConfig s) (chatInput s) Pending
         in started @ [setChatInput []] @
            drop (length started) (handleChatSend (editedConfig s) (chatInput s) out))
      else [])"

text \<open>The click handler of the button "Apply Changes to Form".\<close>

definition applyChanges :: "'c option \<Rightarrow> ('c editor_panel \<Rightarrow> 'c editor_panel) list" where
  "applyChanges edited =
     (case edited of
        None \<Rightarrow> []
      | Some config \<Rightarrow>
          [setFormConfig config,
           setShowEditor False,
           emitToast \<lparr>title = js ''Applied edits'', description = js ''Form JSON updated'',
                      destructive = False\<rparr>])"

section \<open>The unified chat (first component of \<^verbatim>\<open>part_000\<close>)\<close>

text \<open>
  \<open>placeholder\<close> is the optional field \<^verbatim>\<open>isGenerating\<close> of a \<^verbatim>\<open>ChatMessage\<close> (a missing
  field reads as false); the hook of the same name is the field \<open>isGenerating\<close> of the
  panel.
\<close>

record 'c ChatMessage =
  role :: role
  content :: jsstring
  placeholder :: bool
  jsonData :: "'c option"

text \<open>
  Besides the hooks, the state of the chat holds the call of \<^verbatim>\<open>handleSendMessage\<close> that
  is suspended at its await, if there is one, with the closure values it was made with:
  the committed configuration and the text.
\<close>

record 'c chat_panel = "'c core" +
  chatHistory :: "'c ChatMessage list"
  awaiting :: "('c option \<times> jsstring) option"

definition setChatHistory ::
  "('c ChatMessage list \<Rightarrow> 'c ChatMessage list) \<Rightarrow> 'c chat_panel \<Rightarrow> 'c chat_panel" where
  "setChatHistory f s = s\<lparr>chatHistory := f (chatHistory s)\<rparr>"

definition setAwaiting :: "('c option \<times> jsstring) option \<Rightarrow> 'c chat_panel \<Rightarrow> 'c chat_panel" where
  "setAwaiting v s = s\<lparr>awaiting := v\<rparr>"

text \<open>\<^verbatim>\<open>setChatHistory((prev) => prev.filter(msg => !msg.isGenerating))\<close>\<close>

definition removeLoading :: "'c chat_panel \<Rightarrow> 'c chat_panel" where
  "removeLoading = setChatHistory (filter (\<lambda>msg. \<not> placeholder msg))"

text \<open>\<^verbatim>\<open>setChatHistory((prev) => [...prev, msg])\<close>\<close>

definition appendMessage :: "'c ChatMessage \<Rightarrow> 'c chat_panel \<Rightarrow> 'c chat_panel" where
  "appendMessage msg = setChatHistory (\<lambda>prev. prev @ [msg])"

definition userMessage :: "jsstring \<Rightarrow> 'c ChatMessage" where
  "userMessage userText = \<lparr>role = User, content = userText, placeholder = False, jsonData = None\<rparr>"

definition errorMsg :: "thrown \<Rightarrow> 'c ChatMessage" where
  "errorMsg error =
     \<lparr>role = Assistant,
      content = js ''Error: '' @ messageOr error (js ''Something went wrong''),
      placeholder = False, jsonData = None\<rparr>"

definition errorToast :: "thrown \<Rightarrow> toast" where
  "errorToast error =
     \<lparr>title = js ''Error'',
      description = messageOr error (js ''Failed to process request''),
      destructive = True\<rparr>"

definition handleInitialFormGeneration ::
  "jsstring \<Rightarrow> 'c outcome \<Rightarrow> ('c chat_panel \<Rightarrow> 'c chat_panel) list \<times> completion" where
  "handleInitialFormGeneration promptText out =
     (let issued =
            [setStatusText (js ''Generating form...''),
             setStatusColor (js ''bg-yellow-500''),
             apiRequest (Prompt promptText)]
      in case out of
           Pending \<Rightarrow> (issued, Stalled)
         | Rejected error \<Rightarrow> (issued, Threw error)
         | Resolved None \<Rightarrow> (issued, Threw invalidResponse)
         | Resolved (Some config) \<Rightarrow>
             (issued @
              [setFormConfig config,
               setStatusText (js ''Form generated successfully''),
               setStatusColor (js ''bg-green-500''),
               removeLoading,
               appendMessage
                 \<lparr>role = Assistant,
                  content = [0x2705] @ js '' Form generated successfully! Here's the JSON. You can now ask me to modify specific parts of the form.'',
                  placeholder = False, jsonData = Some config\<rparr>,
               emitToast \<lparr>title = js ''Success'',
                          description = js ''Form configuration generated successfully'',
                          destructive = False\<rparr>],
              Returned))"

text \<open>\<^verbatim>\<open>handleJsonEdit\<close> reads \<^verbatim>\<open>formConfig\<close> from its closure.\<close>

definition handleJsonEdit ::
  "'c option \<Rightarrow> jsstring \<Rightarrow> 'c outcome \<Rightarrow> ('c chat_panel \<Rightarrow> 'c chat_panel) list \<times> completion" where
  "handleJsonEdit committed instruction out =
     (case committed of
        None \<Rightarrow> ([], Threw (ErrorObject (js ''No form configuration to edit'')))
      | Some json \<Rightarrow>
          (let issued = [apiRequest (EditJson json instruction)]
           in case out of
                Pending \<Rightarrow> (issued, Stalled)
              | Rejected error \<Rightarrow> (issued, Threw error)
              | Resolved None \<Rightarrow> (issued, Threw invalidResponse)
              | Resolved (Some config) \<Rightarrow>
                  (issued @
                   [setFormConfig config,
                    removeLoading,
                    appendMessage
                      \<lparr>role = Assistant,
                       content = [0x2705] @ js '' Form updated successfully! Here's the updated JSON. You can continue making changes or test the form.'',
                       placeholder = False, jsonData = Some config\<rparr>,
                    emitToast \<lparr>title = js ''Success'',
                               description = js ''Form configuration updated successfully'',
                               destructive = False\<rparr>],
                   Returned)))"

text \<open>
  \<^verbatim>\<open>handleSendMessage\<close> reads \<^verbatim>\<open>formConfig\<close> from its closure, once for the branch and
  once more inside \<^verbatim>\<open>handleJsonEdit\<close>. Its \<^verbatim>\<open>try\<close> block ends as the function it awaits
  ends: \<^verbatim>\<open>catch\<close> runs on a throw, \<^verbatim>\<open>finally\<close> after both, and neither while the call is
  pending.
\<close>

definition handleSendMessage ::
  "'c option \<Rightarrow> jsstring \<Rightarrow> 'c outcome \<Rightarrow> ('c chat_panel \<Rightarrow> 'c chat_panel) list" where
  "handleSendMessage committed userText out =
     (if blank userText then []
      else
        (let tempAssistantMsg =
               \<lparr>role = Assistant, content = js ''Generating...'', placeholder = True,
                jsonData = None\<rparr>;
             isInitialGeneration = (committed = None);
             tried = (if isInitialGeneration then handleInitialFormGeneration userText out
                      else handleJsonEdit committed userText out)
         in [appendMessage (userMessage userText),
             setPrompt [],
             setIsGenerating True,
             appendMessage tempAssistantMsg] @
            fst tried @
            (case snd tried of
               Stalled \<Rightarrow> []
             | Returned \<Rightarrow> [setIsGenerating False]
             | Threw error \<Rightarrow>
                 [removeLoading,
                  appendMessage (errorMsg error),
                  emitToast (errorToast error)] @
                 [setIsGenerating False])))"

text \<open>
  An asynchronous handler runs in two turns of the event loop. At the event it runs up to
  its await: these are the updates it performs when the call stays pending. When the call
  settles it runs the rest: the updates it performs for that outcome, after those.
\<close>

definition submit :: "'c chat_panel \<Rightarrow> ('c chat_panel \<Rightarrow> 'c chat_panel) list" where
  "submit s =
     handleSendMessage (formConfig s) (prompt s) Pending @
     (if blank (prompt s) then [] else [setAwaiting (Some (formConfig s, prompt s))])"

definition settle :: "'c outcome \<Rightarrow> 'c chat_panel \<Rightarrow> ('c chat_panel \<Rightarrow> 'c chat_panel) list" where
  "settle out s =
     (case awaiting s of
        None \<Rightarrow> []
      | Some (committed, userText) \<Rightarrow>
          (case out of
             Pending \<Rightarrow> []
           | _ \<Rightarrow>
               drop (length (handleSendMessage committed userText Pending))
                 (handleSendMessage committed userText out) @
               [setAwaiting None]))"

text \<open>
  The events of the chat. The text area is \<^verbatim>\<open>disabled={isGenerating}\<close>: it takes input
  (\<^verbatim>\<open>onChange\<close>) and the Enter key without Shift (\<^verbatim>\<open>handleKeyDown\<close>) only while the panel
  is not generating. The send button is \<^verbatim>\<open>disabled={isGenerating || !prompt.trim()}\<close>.
  Both submit the current \<^verbatim>\<open>prompt\<close>. The theme menu offers the five themes. The awaited
  call settles, if it does, at any later time.
\<close>

datatype 'c event =
    TypeText jsstring
  | PressEnter
  | ClickSend
  | PickTheme jsstring
  | Settle "'c outcome"

definition fire :: "'c event \<Rightarrow> 'c chat_panel \<Rightarrow> ('c chat_panel \<Rightarrow> 'c chat_panel) list" where
  "fire e s =
     (case e of
        TypeText v \<Rightarrow> if isGenerating s then [] else [setPrompt v]
      | PressEnter \<Rightarrow> if isGenerating s then [] else submit s
      | ClickSend \<Rightarrow> if isGenerating s \<or> blank (prompt s) then [] else submit s
      | PickTheme t \<Rightarrow> if t \<in> set themes then fst (applyTheme t) else []
      | Settle out \<Rightarrow> settle out s)"

text \<open>
  The panel as it is mounted: the initial values of the hooks, over the class list of the
  page, what the storage holds and what the form context holds; then the updates of the
  mount effect. An effect that throws stops there: \<open>mounted\<close> is then the state it
  leaves behind. What the page does after such a throw is not modelled; the events of a
  session are then events of a panel that may no longer be there.
\<close>

definition initialPanel :: "jsstring list \<Rightarrow> jsstring option \<Rightarrow> 'c option \<Rightarrow> 'c chat_panel" where
  "initialPanel classes stored committed =
     \<lparr>prompt = [], isGenerating = False, statusText = js ''Ready'',
      statusColor = js ''bg-green-500'', formConfig = committed, contextWrites = [],
      toasts = [], requests = [], classList = classes, fontPrimary = None,
      themePreset = stored,
      chatHistory =
        [\<lparr>role = System,
          content = js ''Welcome to Forms Engine! Enter a prompt to generate a form.'',
          placeholder = False, jsonData = None\<rparr>],
      awaiting = None\<rparr>"

definition mounted :: "jsstring list \<Rightarrow> jsstring option \<Rightarrow> 'c option \<Rightarrow> 'c chat_panel" where
  "mounted classes stored committed =
     (let s = initialPanel classes stored committed in run (fst (useEffect_theme s)) s)"

text \<open>A reload mounts the panel again; of the old state only the storage is left.\<close>

definition reload :: "jsstring list \<Rightarrow> 'c option \<Rightarrow> 'c chat_panel \<Rightarrow> 'c chat_panel" where
  "reload classes committed s = mounted classes (themePreset s) committed"

text \<open>
  A session: the states the panel goes through, one after each state update, while the
  events are handled one after the other.
\<close>

fun session :: "'c event list \<Rightarrow> 'c chat_panel \<Rightarrow> 'c chat_panel list" where
  "session [] s = []"
| "session (e # es) s = points (fire e s) s @ session es (run (fire e s) s)"

section \<open>Notions used by the properties\<close>

text \<open>
  A call has failed when it rejects (a response that is not a success, or any other thrown
  error) or resolves with a body that lacks \<^verbatim>\<open>config\<close>. \<open>caught\<close> is the value the
  \<^verbatim>\<open>catch\<close> clause of the chat then receives.
\<close>

fun failure :: "'c outcome \<Rightarrow> bool" where
  "failure Pending = False"
| "failure (Resolved config) = (config = None)"
| "failure (Rejected error) = True"

fun caught :: "'c outcome \<Rightarrow> thrown" where
  "caught (Rejected error) = error"
| "caught out = invalidResponse"

text \<open>
  At most one message of a transcript is a placeholder, and a placeholder is the last
  message. A step from transcript \<open>h\<close> to \<open>h'\<close> that appends a message finds no
  placeholder in \<open>h\<close>.
\<close>

definition onePlaceholderLast :: "'c ChatMessage list \<Rightarrow> bool" where
  "onePlaceholderLast h \<longleftrightarrow>
     length (filter placeholder h) \<le> 1 \<and>
     (\<forall>j<length h. placeholder (h ! j) \<longrightarrow> Suc j = length h)"

definition appendsAfterRemoval :: "'c ChatMessage list \<Rightarrow> 'c ChatMessage list \<Rightarrow> bool" where
  "appendsAfterRemoval h h' \<longleftrightarrow> (h' \<noteq> [] \<and> butlast h' = h \<longrightarrow> filter placeholder h = [])"

text \<open>Between two events: a placeholder, if any, is last, and there is one only while generating.\<close>

definition tidy :: "'c chat_panel \<Rightarrow> bool" where
  "tidy s \<longleftrightarrow>
     (\<forall>m\<in>set (butlast (chatHistory s)). \<not> placeholder m) \<and>
     (\<not> isGenerating s \<longrightarrow> (\<forall>m\<in>set (chatHistory s). \<not> placeholder m))"

text \<open>Concrete states, with numbers for configurations.\<close>

definition demoCore :: "nat core" where
  "demoCore =
     \<lparr>prompt = [], isGenerating = False, statusText = js ''Ready'',
      statusColor = js ''bg-green-500'', formConfig = None, contextWrites = [],
      toasts = [], requests = [], classList = [], fontPrimary = None, themePreset = None\<rparr>"

definition demoEditor :: "nat editor_panel" where
  "demoEditor =
     \<lparr>prompt = [], isGenerating = False, statusText = js ''Ready'',
      statusColor = js ''bg-green-500'', formConfig = None, contextWrites = [],
      toasts = [], requests = [], classList = [], fontPrimary = None, themePreset = None,
      generatedConfig = Some 1, editedConfig = Some 1, editorChatHistory = [],
      showEditor = True, chatInput = []\<rparr>"

definition demoChat :: "nat chat_panel" where
  "demoChat = initialPanel [] None None"

text \<open>The state after a sequence of events.\<close>

fun after :: "'c event list \<Rightarrow> 'c chat_panel \<Rightarrow> 'c chat_panel" where
  "after [] s = s"
| "after (e # es) s = after es (run (fire e s) s)"

text \<open>Between two events: the panel is generating exactly while a call is awaited.\<close>

definition inStep :: "'c chat_panel \<Rightarrow> bool" where
  "inStep s \<longleftrightarrow>
     (case awaiting s of
        None \<Rightarrow> \<not> isGenerating s
      | Some (committed, userText) \<Rightarrow> isGenerating s \<and> \<not> blank userText)"

text \<open>
  A short session on the freshly mounted chat: the user types "hi" and presses Enter.
  \<open>demoAwaiting\<close> is the state the session ends in, with the call pending.
\<close>

definition demoSession :: "nat event list" where
  "demoSession = [TypeText (js ''hi''), PressEnter]"

definition demoAwaiting :: "nat chat_panel" where
  "demoAwaiting =
     run (handleSendMessage None (js ''hi'') Pending @ [setAwaiting (Some (None, js ''hi''))])
       (run [setPrompt (js ''hi'')] (mounted [] None None))"

section \<open>Auxiliary facts\<close>

lemma run_append: "run (us @ vs) s = run vs (run us s)"
  by (induction us arbitrary: s) simp_all

lemma points_append: "points (us @ vs) s = points us s @ points vs (run us s)"
  by (induction us arbitrary: s) simp_all

lemma last_points: "last (s # points us s) = run us s"
  by (induction us arbitrary: s) simp_all

lemmas setter_defs = setPrompt_def setIsGenerating_def setStatusText_def setStatusColor_def
  setFormConfig_def emitToast_def apiRequest_def setChatHistory_def removeLoading_def
  appendMessage_def setAwaiting_def setGeneratedConfig_def setEditedConfig_def
  setEditorChatHistory_def setShowEditor_def setChatInput_def classList_remove_def
  classList_add_def localStorage_setItem_def style_setProperty_def

lemmas handler_defs = handleSendMessage_def handleInitialFormGeneration_def handleJsonEdit_def
  handleGenerateForm_def editor_handleGenerateForm_def handleChatSend_def applyChanges_def
  generateFailed_def

lemmas text_defs = blank_def trim_def isWhiteSpace_def js_def

lemmas demo_defs = demoCore_def demoEditor_def demoChat_def initialPanel_def

lemmas theme_defs = useEffect_theme_def applyTheme_def savedTheme_def classList_rejects_def
  asciiWhitespace_def

text \<open>
  The token \<^verbatim>\<open>theme-<name>\<close> is never empty, so \<^verbatim>\<open>classList.add\<close> rejects it exactly when
  the name contains ASCII white space.
\<close>

lemma rejects_theme_token:
  "classList_rejects (js ''theme-'' @ name) =
     (if list_ex asciiWhitespace name then Some InvalidCharacterError else None)"
  by (simp add: classList_rejects_def js_def asciiWhitespace_def)

lemma applyTheme_accepted:
  "\<not> list_ex asciiWhitespace name \<Longrightarrow>
   applyTheme name =
     ([classList_remove themeMarkers,
       classList_add (js ''theme-'' @ name),
       localStorage_setItem name,
       style_setProperty (getProperty fontMap name),
       emitToast \<lparr>title = js ''Theme Changed'',
                  description = js ''Applied '' @ name @ js '' theme and font'',
                  destructive = False\<rparr>],
      None)"
  by (simp add: applyTheme_def rejects_theme_token)

lemma applyTheme_rejected:
  "list_ex asciiWhitespace name \<Longrightarrow>
   applyTheme name = ([classList_remove themeMarkers], Some InvalidCharacterError)"
  by (simp add: applyTheme_def rejects_theme_token)

lemma themes_accepted: "t \<in> set themes \<Longrightarrow> t \<noteq> [] \<and> \<not> list_ex asciiWhitespace t"
  by (auto simp: themes_def js_def asciiWhitespace_def)

lemma theme_points:
  "(\<forall>p\<in>set (points (fst (applyTheme t)) s).
      chatHistory p = chatHistory s \<and> isGenerating p = isGenerating s
      \<and> awaiting p = awaiting s)
   \<and> chatHistory (run (fst (applyTheme t)) s) = chatHistory s
   \<and> isGenerating (run (fst (applyTheme t)) s) = isGenerating s
   \<and> awaiting (run (fst (applyTheme t)) s) = awaiting s"
  by (cases "list_ex asciiWhitespace t")
     (simp_all add: applyTheme_accepted applyTheme_rejected setter_defs)

lemma handleSendMessage_prefix:
  "handleSendMessage c v out =
     handleSendMessage c v Pending @
     drop (length (handleSendMessage c v Pending)) (handleSendMessage c v out)"
  by (cases out; cases c)
     (auto simp: handleSendMessage_def handleInitialFormGeneration_def handleJsonEdit_def
        Let_def split: option.splits)

text \<open>The two turns of a submission together do what the handler does as a whole.\<close>

lemma submit_then_settle:
  assumes "\<not> blank (prompt s)" and "out \<noteq> Pending"
  shows "run (settle out (run (submit s) s)) (run (submit s) s) =
     (run (handleSendMessage (formConfig s) (prompt s) out) s)\<lparr>awaiting := None\<rparr>"
  using assms
  by (cases out; cases "formConfig s")
     (auto simp: settle_def submit_def handler_defs run_append setter_defs Let_def
        split: option.splits)

lemma fire_inStep: "inStep s \<Longrightarrow> inStep (run (fire e s) s)"
proof (cases e)
  case (TypeText v)
  then show "inStep s \<Longrightarrow> inStep (run (fire e s) s)"
    by (auto simp: fire_def inStep_def setter_defs split: option.splits)
next
  case PressEnter
  then show "inStep s \<Longrightarrow> inStep (run (fire e s) s)"
    by (cases "formConfig s")
       (auto simp: fire_def submit_def inStep_def handler_defs run_append setter_defs Let_def
          split: option.splits)
next
  case ClickSend
  then show "inStep s \<Longrightarrow> inStep (run (fire e s) s)"
    by (cases "formConfig s")
       (auto simp: fire_def submit_def inStep_def handler_defs run_append setter_defs Let_def
          split: option.splits)
next
  case (PickTheme t)
  then show "inStep s \<Longrightarrow> inStep (run (fire e s) s)"
    using theme_points [of t s] by (auto simp: fire_def inStep_def split: option.splits)
next
  case (Settle out)
  assume b: "inStep s"
  show "inStep (run (fire e s) s)"
  proof (cases "awaiting s")
    case None
    then show ?thesis using b Settle by (simp add: fire_def settle_def)
  next
    case (Some a)
    obtain c v where a: "a = (c, v)" by (cases a)
    show ?thesis
      using b Settle Some a
      by (cases out; cases c)
         (auto simp: fire_def settle_def inStep_def handler_defs run_append setter_defs Let_def
            split: option.splits)
  qed
qed

lemma after_inStep: "inStep s \<Longrightarrow> inStep (after es s)"
  by (induction es arbitrary: s) (simp_all add: fire_inStep)

lemma after_append: "after (es @ fs) s = after fs (after es s)"
  by (induction es arbitrary: s) simp_all

lemma settle_idle:
  assumes "inStep s" and "out \<noteq> Pending"
  shows "\<not> isGenerating (run (settle out s) s)"
proof (cases "awaiting s")
  case None
  then show ?thesis using assms by (simp add: settle_def inStep_def)
next
  case (Some a)
  obtain c v where a: "a = (c, v)" by (cases a)
  show ?thesis
    using assms Some a
    by (cases out; cases c)
       (auto simp: settle_def inStep_def handler_defs run_append setter_defs Let_def
          split: option.splits)
qed

lemma mounted_inStep: "inStep (mounted classes stored committed)"
  using theme_points [of "savedTheme (initialPanel classes stored committed)"
      "initialPanel classes stored committed"]
  by (simp add: mounted_def inStep_def useEffect_theme_def Let_def) (simp add: initialPanel_def)

section \<open>Routing of a prompt\<close>

text \<open>
  C1. A submitted text that is not empty once trimmed issues exactly one request, and
  which one depends only on the committed configuration the handler sees: without one,
  the generate request with the text as prompt; with one, the edit request with that
  configuration and the text as instruction. This holds whatever the call will answer.
\<close>

theorem prompt_routes_on_committed_config:
  "\<not> blank userText \<Longrightarrow>
   requests (run (handleSendMessage (formConfig s) userText out) s) =
   requests s @
     [case formConfig s of
        None \<Rightarrow> Prompt userText
      | Some json \<Rightarrow> EditJson json userText]"
  by (cases out; cases "formConfig s")
     (auto simp: handler_defs run_append setter_defs Let_def split: option.splits)

theorem prompt_routes_on_committed_config_witness:
  "\<not> blank (js ''add a phone field'') \<and>
   requests (run (handleSendMessage (formConfig demoChat)
        (js ''Create a survey with name and email'') Pending) demoChat) =
     [Prompt (js ''Create a survey with name and email'')] \<and>
   requests (run (handleSendMessage (formConfig (demoChat\<lparr>formConfig := Some 7\<rparr>))
        (js ''add a phone field'') Pending) (demoChat\<lparr>formConfig := Some 7\<rparr>)) =
     [EditJson 7 (js ''add a phone field'')]"
proof -
  have a: "\<not> blank (js ''Create a survey with name and email'')"
    by (simp add: text_defs)
  have b: "\<not> blank (js ''add a phone field'')"
    by (simp add: text_defs)
  show ?thesis
    using b prompt_routes_on_committed_config [OF a, of demoChat Pending]
      prompt_routes_on_committed_config [OF b, of "demoChat\<lparr>formConfig := Some 7\<rparr>" Pending]
    by (simp add: demo_defs)
qed

section \<open>Failures and the committed configuration\<close>

text \<open>
  C2. When the call fails (it rejects, or its body lacks the configuration), no handler
  writes to the shared form context: the committed configuration and the list of writes
  are what they were before. This holds for the chat (generation and edit alike, whatever
  configuration the handler sees), for the generator, and for the two handlers of the
  editor variant.
\<close>

theorem failure_keeps_committed_config:
  "failure out \<Longrightarrow>
   formConfig (run (handleSendMessage committed userText out) s) = formConfig s \<and>
   contextWrites (run (handleSendMessage committed userText out) s) = contextWrites s \<and>
   formConfig (run (handleGenerateForm p out) t) = formConfig t \<and>
   contextWrites (run (handleGenerateForm p out) t) = contextWrites t \<and>
   formConfig (run (editor_handleGenerateForm p out) u) = formConfig u \<and>
   contextWrites (run (editor_handleGenerateForm p out) u) = contextWrites u \<and>
   formConfig (run (handleChatSend edited userText out) u) = formConfig u \<and>
   contextWrites (run (handleChatSend edited userText out) u) = contextWrites u"
  by (cases out; cases committed; cases edited)
     (auto simp: handler_defs run_append setter_defs Let_def split: option.splits)

theorem failure_keeps_committed_config_witness:
  "failure (Rejected (ErrorObject (js ''500: Internal Server Error'')) :: nat outcome) \<and>
   formConfig (run (handleSendMessage (Some 7) (js ''add a phone field'')
      (Rejected (ErrorObject (js ''500: Internal Server Error''))))
      (demoChat\<lparr>formConfig := Some 7\<rparr>)) = Some 7 \<and>
   formConfig (run (handleGenerateForm (js ''a survey'') (Resolved None)) demoCore) = None"
proof -
  have a: "failure (Rejected (ErrorObject (js ''500: Internal Server Error'')) :: nat outcome)"
    by simp
  have b: "failure (Resolved None :: nat outcome)"
    by simp
  show ?thesis
    using a
      failure_keeps_committed_config [OF a, of "Some 7" "js ''add a phone field''"
        "demoChat\<lparr>formConfig := Some 7\<rparr>" "[]" demoCore demoEditor None]
      failure_keeps_committed_config [OF b, of None "[]" demoChat "js ''a survey''" demoCore
        demoEditor None]
    by (simp add: demo_defs)
qed

section \<open>Return to idle\<close>

text \<open>
  C8. Once the call of a submission has settled, by success or by failure, the generating
  flag is cleared: after the chat handler, after the generator and after the generator of
  the editor variant. A rejected blank text leaves the flag of the chat as it was. In the
  chat as a machine of events, started as mounted, the panel is idle right after every
  event by which a call settles. (A call that never settles is not a completed submission:
  the flag then stays set.)
\<close>

theorem submission_returns_to_idle:
  "out \<noteq> Pending \<Longrightarrow>
   (\<not> blank userText \<longrightarrow>
      \<not> isGenerating (run (handleSendMessage committed userText out) s) \<and>
      \<not> isGenerating (run (handleGenerateForm userText out) t) \<and>
      \<not> isGenerating (run (editor_handleGenerateForm userText out) u)) \<and>
   (blank userText \<longrightarrow>
      isGenerating (run (handleSendMessage committed userText out) s) = isGenerating s) \<and>
   \<not> isGenerating (after (es @ [Settle out]) (mounted classes stored committed'))"
proof -
  assume settles: "out \<noteq> Pending"
  have handlers:
    "(\<not> blank userText \<longrightarrow>
      \<not> isGenerating (run (handleSendMessage committed userText out) s) \<and>
      \<not> isGenerating (run (handleGenerateForm userText out) t) \<and>
      \<not> isGenerating (run (editor_handleGenerateForm userText out) u)) \<and>
     (blank userText \<longrightarrow>
      isGenerating (run (handleSendMessage committed userText out) s) = isGenerating s)"
    using settles
    by (cases out; cases committed)
       (auto simp: handler_defs run_append setter_defs Let_def split: option.splits)
  have "inStep (after es (mounted classes stored committed'))"
    using mounted_inStep by (rule after_inStep)
  then have "\<not> isGenerating (after (es @ [Settle out]) (mounted classes stored committed'))"
    using settle_idle [OF _ settles] by (simp add: after_append fire_def)
  then show ?thesis using handlers by blast
qed

theorem submission_returns_to_idle_witness:
  "(Rejected OtherValue :: nat outcome) \<noteq> Pending \<and>
   \<not> blank (js ''a survey'') \<and>
   \<not> isGenerating (run (handleSendMessage None (js ''a survey'') (Rejected OtherValue)) demoChat) \<and>
   \<not> isGenerating (run (handleGenerateForm (js ''a survey'') (Rejected OtherValue)) demoCore) \<and>
   isGenerating (after demoSession (mounted [] None None)) \<and>
   \<not> isGenerating (after (demoSession @ [Settle (Rejected OtherValue)]) (mounted [] None None))"
proof -
  have a: "(Rejected OtherValue :: nat outcome) \<noteq> Pending"
    by simp
  have b: "\<not> blank (js ''a survey'')"
    by (simp add: text_defs)
  have c: "isGenerating (after demoSession (mounted [] None None))"
    by (simp add: demoSession_def fire_def submit_def mounted_def initialPanel_def
        theme_defs handler_defs setter_defs text_defs Let_def run_append)
  show ?thesis
    using a b c
      submission_returns_to_idle [OF a, of "js ''a survey''" None demoChat demoCore demoEditor
        demoSession "[]" None None]
    by simp
qed

section \<open>A successful edit\<close>

text \<open>
  In the editor variant a successful edit does not reach the shared context: with the
  staged configuration 1 and nothing committed, the answer 2 is staged and nothing is
  committed or written.
\<close>

theorem staged_edit_is_not_committed:
  "formConfig (run (handleChatSend (editedConfig demoEditor) (js ''add a phone field'')
      (Resolved (Some 2))) demoEditor) = None \<and>
   contextWrites (run (handleChatSend (editedConfig demoEditor) (js ''add a phone field'')
      (Resolved (Some 2))) demoEditor) = [] \<and>
   editedConfig (run (handleChatSend (editedConfig demoEditor) (js ''add a phone field'')
      (Resolved (Some 2))) demoEditor) = Some 2 \<and>
   requests (run (handleChatSend (editedConfig demoEditor) (js ''add a phone field'')
      (Resolved (Some 2))) demoEditor) = [EditJson 1 (js ''add a phone field'')]"
  by (simp add: demo_defs handler_defs setter_defs text_defs)

text \<open>
  C3, amended. In the unified chat a successful edit writes the returned configuration to
  the shared context, and the committed configuration is then exactly the returned one,
  whatever it was before: \<^verbatim>\<open>handleJsonEdit\<close> returns normally, and so does the submission
  through \<^verbatim>\<open>handleSendMessage\<close>. In the editor variant \<^verbatim>\<open>handleChatSend\<close> replaces the
  staged \<^verbatim>\<open>editedConfig\<close> by the returned value as a whole and leaves the committed
  configuration alone; "Apply Changes to Form" then commits the staged value.
\<close>

theorem successful_edit_replaces_config:
  "formConfig (run (fst (handleJsonEdit (Some json) instruction (Resolved (Some config)))) s)
     = Some config \<and>
   contextWrites (run (fst (handleJsonEdit (Some json) instruction (Resolved (Some config)))) s)
     = contextWrites s @ [config] \<and>
   snd (handleJsonEdit (Some json) instruction (Resolved (Some config))) = Returned \<and>
   (\<not> blank instruction \<longrightarrow>
      formConfig (run (handleSendMessage (Some json) instruction (Resolved (Some config))) s)
        = Some config \<and>
      contextWrites (run (handleSendMessage (Some json) instruction (Resolved (Some config))) s)
        = contextWrites s @ [config] \<and>
      editedConfig (run (handleChatSend (Some json) instruction (Resolved (Some config))) u)
        = Some config) \<and>
   formConfig (run (handleChatSend (Some json) instruction (Resolved (Some config))) u)
     = formConfig u \<and>
   contextWrites (run (handleChatSend (Some json) instruction (Resolved (Some config))) u)
     = contextWrites u \<and>
   formConfig (run (applyChanges (Some config)) u) = Some config \<and>
   contextWrites (run (applyChanges (Some config)) u) = contextWrites u @ [config]"
  by (simp add: handler_defs run_append setter_defs Let_def)

theorem successful_edit_replaces_config_witness:
  "\<not> blank (js ''add a phone field'') \<and>
   formConfig (run (handleSendMessage (Some 7) (js ''add a phone field'') (Resolved (Some 8)))
      (demoChat\<lparr>formConfig := Some 7\<rparr>)) = Some 8 \<and>
   editedConfig (run (handleChatSend (Some 7) (js ''add a phone field'') (Resolved (Some 8)))
      demoEditor) = Some 8"
proof -
  have a: "\<not> blank (js ''add a phone field'')"
    by (simp add: text_defs)
  show ?thesis
    using a
      successful_edit_replaces_config [of 7 "js ''add a phone field''" 8
        "demoChat\<lparr>formConfig := Some 7\<rparr>" demoEditor]
    by simp
qed

section \<open>Blank input\<close>

text \<open>
  C5. A text that is empty once trimmed causes no transition. The chat handler
  \<^verbatim>\<open>handleSendMessage\<close> performs no update at all for it, and neither the Enter key nor the
  send button of the chat changes anything while the prompt is blank. In the two variants
  with a generator, the button "Generate Form" is disabled while the prompt is blank, so
  a click changes nothing and \<^verbatim>\<open>handleGenerateForm\<close> is not called. In the editor,
  \<^verbatim>\<open>handleChatSend\<close> performs no update for a blank text; Enter and the button "Send" then
  only clear the input field, which held the blank text. In none of these cases is a message
  appended to a transcript, a request issued or a notification emitted.
\<close>

theorem blank_submission_is_silent:
  fixes s :: "'c chat_panel" and t :: "('c, 'z) core_scheme" and u :: "'c editor_panel"
  shows
  "blank userText \<Longrightarrow>
   handleSendMessage committed userText out = [] \<and>
   run (handleSendMessage committed userText out) s = s \<and>
   (prompt s = userText \<longrightarrow>
      run (fire PressEnter s) s = s \<and> run (fire ClickSend s) s = s) \<and>
   (prompt t = userText \<longrightarrow> clickGenerate out t = [] \<and> run (clickGenerate out t) t = t) \<and>
   (prompt u = userText \<longrightarrow>
      editor_clickGenerate out u = [] \<and> run (editor_clickGenerate out u) u = u) \<and>
   handleChatSend edited userText out = [] \<and>
   run (handleChatSend edited userText out) u = u \<and>
   (chatInput u = userText \<longrightarrow>
      run (sendChatInput out u) u = (if showEditor u then u\<lparr>chatInput := []\<rparr> else u) \<and>
      editorChatHistory (run (sendChatInput out u) u) = editorChatHistory u \<and>
      requests (run (sendChatInput out u) u) = requests u \<and>
      toasts (run (sendChatInput out u) u) = toasts u)"
  by (simp add: fire_def submit_def clickGenerate_def editor_clickGenerate_def
      sendChatInput_def handleSendMessage_def handleChatSend_def setChatInput_def
      split: option.splits)

theorem blank_submission_is_silent_witness:
  "blank [0x20, 0x0A, 0x3000] \<and>
   run (handleSendMessage None [0x20, 0x0A, 0x3000] (Resolved (Some 1))) demoChat = demoChat \<and>
   prompt (demoCore\<lparr>prompt := [0x20, 0x0A, 0x3000]\<rparr>) = [0x20, 0x0A, 0x3000] \<and>
   run (clickGenerate (Resolved (Some 1)) (demoCore\<lparr>prompt := [0x20, 0x0A, 0x3000]\<rparr>))
     (demoCore\<lparr>prompt := [0x20, 0x0A, 0x3000]\<rparr>) = demoCore\<lparr>prompt := [0x20, 0x0A, 0x3000]\<rparr> \<and>
   chatInput (demoEditor\<lparr>chatInput := [0x20, 0x0A, 0x3000]\<rparr>) = [0x20, 0x0A, 0x3000] \<and>
   run (sendChatInput (Resolved (Some 1)) (demoEditor\<lparr>chatInput := [0x20, 0x0A, 0x3000]\<rparr>))
     (demoEditor\<lparr>chatInput := [0x20, 0x0A, 0x3000]\<rparr>) = demoEditor \<and>
   blank (prompt demoChat) \<and>
   run (fire PressEnter demoChat) demoChat = demoChat \<and>
   run (fire ClickSend demoChat) demoChat = demoChat \<and>
   prompt demoEditor = prompt demoChat \<and>
   run (editor_clickGenerate (Resolved (Some 1)) demoEditor) demoEditor = demoEditor"
proof -
  have a: "blank [0x20, 0x0A, 0x3000]"
    by (simp add: text_defs)
  have b: "blank (prompt demoChat)"
    by (simp add: text_defs demo_defs)
  have e: "prompt demoEditor = prompt demoChat"
    by (simp add: demo_defs)
  have c: "run (fire PressEnter demoChat) demoChat = demoChat"
    "run (fire ClickSend demoChat) demoChat = demoChat"
    "run (editor_clickGenerate (Resolved (Some 1)) demoEditor) demoEditor = demoEditor"
    using e blank_submission_is_silent [OF b, where committed = None
        and out = "Resolved (Some 1)" and s = demoChat and edited = None and u = demoEditor
        and t = demoCore]
    by simp_all
  have d: "run (handleSendMessage None [0x20, 0x0A, 0x3000] (Resolved (Some 1))) demoChat
      = demoChat"
    "run (clickGenerate (Resolved (Some 1)) (demoCore\<lparr>prompt := [0x20, 0x0A, 0x3000]\<rparr>))
       (demoCore\<lparr>prompt := [0x20, 0x0A, 0x3000]\<rparr>) = demoCore\<lparr>prompt := [0x20, 0x0A, 0x3000]\<rparr>"
    "run (sendChatInput (Resolved (Some 1)) (demoEditor\<lparr>chatInput := [0x20, 0x0A, 0x3000]\<rparr>))
       (demoEditor\<lparr>chatInput := [0x20, 0x0A, 0x3000]\<rparr>) = demoEditor"
    using blank_submission_is_silent [OF a, where committed = None
        and out = "Resolved (Some 1)" and s = demoChat and edited = None
        and u = "demoEditor\<lparr>chatInput := [0x20, 0x0A, 0x3000]\<rparr>"
        and t = "demoCore\<lparr>prompt := [0x20, 0x0A, 0x3000]\<rparr>"]
    by (simp_all add: demoEditor_def)
  show ?thesis
    using a b c d e by simp
qed

section \<open>An edit without a configuration\<close>

text \<open>
  In the editor variant an edit without a staged configuration reports nothing: the
  handler returns at once, and the state (notifications and transcript included) is what
  it was.
\<close>

theorem edit_without_config_is_silent:
  "toasts (run (handleChatSend None (js ''add a phone field'') (Resolved (Some 2)))
      (demoEditor\<lparr>editedConfig := None\<rparr>)) = [] \<and>
   editorChatHistory (run (handleChatSend None (js ''add a phone field'') (Resolved (Some 2)))
      (demoEditor\<lparr>editedConfig := None\<rparr>)) = [] \<and>
   requests (run (handleChatSend None (js ''add a phone field'') (Resolved (Some 2)))
      (demoEditor\<lparr>editedConfig := None\<rparr>)) = []"
  by (simp add: demo_defs handler_defs)

text \<open>
  C6, amended. An edit invoked without a configuration sends no request. In the unified
  chat \<^verbatim>\<open>handleJsonEdit\<close> raises the failure "No form configuration to edit" before any
  state update and before the call (its only caller, \<^verbatim>\<open>handleSendMessage\<close>, calls it
  only when a configuration exists). In the editor variant \<^verbatim>\<open>handleChatSend\<close> returns
  silently: it performs no update, so it reports nothing.
\<close>

theorem edit_without_config_sends_nothing:
  "handleJsonEdit None instruction out =
     ([], Threw (ErrorObject (js ''No form configuration to edit''))) \<and>
   requests (run (fst (handleJsonEdit None instruction out)) s) = requests s \<and>
   handleChatSend None instruction out = [] \<and>
   run (handleChatSend None instruction out) u = u"
  by (simp add: handler_defs)

theorem edit_without_config_sends_nothing_witness:
  "snd (handleJsonEdit (None :: nat option) (js ''add a phone field'') (Resolved (Some 2))) =
     Threw (ErrorObject (js ''No form configuration to edit'')) \<and>
   requests (run (fst (handleJsonEdit None (js ''add a phone field'') (Resolved (Some 2))))
     demoChat) = []"
  using edit_without_config_sends_nothing [of "js ''add a phone field''" "Resolved (Some 2)"
      demoChat demoEditor]
  by (simp add: demo_defs)

section \<open>Reporting a failure\<close>

text \<open>
  When what was thrown is not an \<^verbatim>\<open>Error\<close>, the chat message and the notification carry
  different texts: "Error: Something went wrong" and "Failed to process request".
\<close>

theorem fallback_texts_differ:
  "content (last (chatHistory
      (run (handleSendMessage None (js ''a survey'') (Rejected OtherValue)) demoChat))) =
     js ''Error: Something went wrong'' \<and>
   description (last (toasts
      (run (handleSendMessage None (js ''a survey'') (Rejected OtherValue)) demoChat))) =
     js ''Failed to process request'' \<and>
   js ''Error: Something went wrong'' \<noteq> js ''Error: '' @ js ''Failed to process request'' \<and>
   js ''Error: Something went wrong'' \<noteq> js ''Failed to process request''"
  by (simp add: demo_defs handler_defs setter_defs text_defs errorMsg_def errorToast_def
      messageOr_def userMessage_def)

text \<open>
  C7, amended. After a failed generate or edit call the transcript is the one from before
  the submission without placeholders, followed by the user message and by one assistant
  message that is not a placeholder; one destructive notification titled "Error" is
  emitted. When the failure has a description (the message of the \<^verbatim>\<open>Error\<close>, or "Invalid
  response from server" for a body without \<^verbatim>\<open>config\<close>), the text of the chat message is
  "Error: " followed by it and the notification carries the same description. When it has
  none, the chat message reads "Error: Something went wrong" and the notification "Failed
  to process request".
\<close>

theorem failure_is_reported:
  "failure out \<Longrightarrow> \<not> blank userText \<Longrightarrow>
   chatHistory (run (handleSendMessage committed userText out) s) =
     filter (\<lambda>m. \<not> placeholder m) (chatHistory s) @
       [userMessage userText, errorMsg (caught out)] \<and>
   toasts (run (handleSendMessage committed userText out) s) =
     toasts s @ [errorToast (caught out)] \<and>
   role (errorMsg (caught out) :: 'c ChatMessage) = Assistant \<and>
   \<not> placeholder (errorMsg (caught out) :: 'c ChatMessage) \<and>
   title (errorToast (caught out)) = js ''Error'' \<and>
   destructive (errorToast (caught out)) \<and>
   (\<forall>m. caught out = ErrorObject m \<longrightarrow>
      content (errorMsg (caught out) :: 'c ChatMessage) = js ''Error: '' @ m \<and>
      description (errorToast (caught out)) = m) \<and>
   (caught out = OtherValue \<longrightarrow>
      content (errorMsg (caught out) :: 'c ChatMessage) = js ''Error: Something went wrong'' \<and>
      description (errorToast (caught out)) = js ''Failed to process request'')"
  by (cases out; cases committed)
     (auto simp: handler_defs run_append setter_defs Let_def userMessage_def errorMsg_def
        errorToast_def messageOr_def invalidResponse_def js_def split: option.splits)

theorem failure_is_reported_witness:
  "failure (Rejected (ErrorObject (js ''500: Internal Server Error'')) :: nat outcome) \<and>
   \<not> blank (js ''a survey'') \<and>
   content (last (chatHistory (run (handleSendMessage None (js ''a survey'')
      (Rejected (ErrorObject (js ''500: Internal Server Error'')))) demoChat))) =
     js ''Error: 500: Internal Server Error'' \<and>
   description (last (toasts (run (handleSendMessage None (js ''a survey'')
      (Rejected (ErrorObject (js ''500: Internal Server Error'')))) demoChat))) =
     js ''500: Internal Server Error'' \<and>
   failure (Resolved None :: nat outcome) \<and>
   content (last (chatHistory (run (handleSendMessage (Some 7) (js ''a survey'')
      (Resolved None)) demoChat))) = js ''Error: Invalid response from server'' \<and>
   description (last (toasts (run (handleSendMessage (Some 7) (js ''a survey'')
      (Resolved None)) demoChat))) = js ''Invalid response from server''"
proof -
  have a: "failure (Rejected (ErrorObject (js ''500: Internal Server Error'')) :: nat outcome)"
    by simp
  have a': "failure (Resolved None :: nat outcome)"
    by simp
  have b: "\<not> blank (js ''a survey'')"
    by (simp add: text_defs)
  show ?thesis
    using a a' b failure_is_reported [OF a b, of None demoChat]
      failure_is_reported [OF a' b, of "Some 7" demoChat]
    by (auto simp: js_def invalidResponse_def)
qed

section \<open>The placeholder\<close>

lemma onePlaceholderLast_butlast:
  "onePlaceholderLast h \<longleftrightarrow> (\<forall>m\<in>set (butlast h). \<not> placeholder m)"
proof (cases h rule: rev_cases)
  case Nil
  then show ?thesis by (simp add: onePlaceholderLast_def)
next
  case (snoc ys y)
  show ?thesis
  proof
    assume l: "onePlaceholderLast h"
    show "\<forall>m\<in>set (butlast h). \<not> placeholder m"
    proof
      fix m assume "m \<in> set (butlast h)"
      then obtain j where j: "j < length ys" "ys ! j = m"
        using snoc by (auto simp: in_set_conv_nth)
      then have "placeholder (h ! j) \<longrightarrow> Suc j = length h"
        using l snoc by (simp add: onePlaceholderLast_def)
      then show "\<not> placeholder m" using j snoc by (auto simp: nth_append)
    qed
  next
    assume r: "\<forall>m\<in>set (butlast h). \<not> placeholder m"
    then have "filter placeholder ys = []" using snoc by (simp add: filter_empty_conv)
    moreover have "\<forall>j<length h. placeholder (h ! j) \<longrightarrow> Suc j = length h"
      using r snoc by (auto simp: nth_append less_Suc_eq)
    ultimately show "onePlaceholderLast h"
      using snoc by (simp add: onePlaceholderLast_def)
  qed
qed

lemma appendsAfterRemoval_snoc:
  "appendsAfterRemoval h h' \<longleftrightarrow> ((\<exists>m. h' = h @ [m]) \<longrightarrow> (\<forall>x\<in>set h. \<not> placeholder x))"
  by (cases h' rule: rev_cases) (auto simp: appendsAfterRemoval_def filter_empty_conv)

lemma filter_keep: "\<forall>m\<in>set h. \<not> placeholder m \<Longrightarrow> filter (\<lambda>m. \<not> placeholder m) h = h"
  by (simp add: filter_id_conv)

text \<open>The two turns of one submission.\<close>

lemma filter_not_snoc: "filter P h \<noteq> h @ [m]"
proof
  assume "filter P h = h @ [m]"
  then have "length (filter P h) = Suc (length h)" by simp
  then show False using length_filter_le [of P h] by simp
qed

lemma send_points:
  assumes "\<forall>m\<in>set (chatHistory s). \<not> placeholder m"
  shows "(\<forall>p\<in>set (points (handleSendMessage c v Pending) s).
            \<forall>m\<in>set (butlast (chatHistory p)). \<not> placeholder m)
     \<and> successively appendsAfterRemoval
           (map chatHistory (s # points (handleSendMessage c v Pending) s))
     \<and> (\<forall>m\<in>set (butlast (chatHistory (run (handleSendMessage c v Pending) s))). \<not> placeholder m)
     \<and> (isGenerating (run (handleSendMessage c v Pending) s)
         \<or> (\<forall>m\<in>set (chatHistory (run (handleSendMessage c v Pending) s)). \<not> placeholder m))"
  using assms
  by (cases c)
     (auto simp: handler_defs run_append points_append setter_defs Let_def userMessage_def
        errorMsg_def appendsAfterRemoval_snoc filter_keep butlast_append
        split: option.splits dest: in_set_butlastD)

lemma rest_points:
  assumes "\<forall>m\<in>set (butlast (chatHistory s)). \<not> placeholder m" and "out \<noteq> Pending"
    and "\<not> blank v"
  shows "(\<forall>p\<in>set (points (drop (length (handleSendMessage c v Pending))
                (handleSendMessage c v out)) s).
            \<forall>m\<in>set (butlast (chatHistory p)). \<not> placeholder m)
     \<and> successively appendsAfterRemoval
           (map chatHistory (s # points (drop (length (handleSendMessage c v Pending))
                (handleSendMessage c v out)) s))
     \<and> (\<forall>m\<in>set (chatHistory (run (drop (length (handleSendMessage c v Pending))
                (handleSendMessage c v out)) s)). \<not> placeholder m)"
  using assms
  by (cases out; cases c)
     (auto simp: handler_defs run_append points_append setter_defs Let_def userMessage_def
        errorMsg_def appendsAfterRemoval_snoc filter_not_snoc butlast_append
        split: option.splits dest: in_set_butlastD)


lemma same_points:
  "\<forall>p\<in>set ps. chatHistory p = h \<Longrightarrow>
   successively appendsAfterRemoval (map chatHistory ps)"
  by (induction ps rule: induct_list012) (auto simp: appendsAfterRemoval_snoc)

lemma successively_join:
  assumes "successively P (x # xs)" and "successively P (last (x # xs) # ys)"
  shows "successively P (x # xs @ ys)"
proof (cases ys)
  case Nil
  then show ?thesis using assms by simp
next
  case (Cons y ys')
  have "successively P ((x # xs) @ ys)"
    unfolding successively_append_iff using assms Cons by simp
  then show ?thesis by simp
qed

lemma neutral_step:
  assumes "successively appendsAfterRemoval (map chatHistory (s # ps))"
    and "chatHistory x = chatHistory (last (s # ps))"
  shows "successively appendsAfterRemoval (map chatHistory (s # ps @ [x]))"
proof -
  have l: "last (map chatHistory (s # ps)) = chatHistory (last (s # ps))"
    by (rule last_map) simp
  have "appendsAfterRemoval (chatHistory x) (chatHistory x)"
    by (simp add: appendsAfterRemoval_snoc)
  then have "appendsAfterRemoval (last (map chatHistory (s # ps))) (chatHistory x)"
    by (simp only: l assms(2))
  then have "successively appendsAfterRemoval (map chatHistory (s # ps) @ [chatHistory x])"
    unfolding successively_append_iff using assms(1) by simp
  then show ?thesis by simp
qed

lemma submit_points:
  assumes "tidy s" and "\<not> isGenerating s"
  shows "tidy (run (submit s) s)
     \<and> (\<forall>p\<in>set (points (submit s) s). \<forall>m\<in>set (butlast (chatHistory p)). \<not> placeholder m)
     \<and> successively appendsAfterRemoval (map chatHistory (s # points (submit s) s))"
proof -
  let ?us = "handleSendMessage (formConfig s) (prompt s) Pending"
  have clean: "\<forall>m\<in>set (chatHistory s). \<not> placeholder m"
    using assms by (simp add: tidy_def)
  note sp = send_points [OF clean, of "formConfig s" "prompt s"]
  show ?thesis
  proof (cases "blank (prompt s)")
    case True
    then show ?thesis using assms by (simp add: submit_def handleSendMessage_def)
  next
    case False
    let ?a = "setAwaiting (Some (formConfig s, prompt s))"
    have sub: "submit s = ?us @ [?a]"
      using False by (simp add: submit_def)
    have ch: "chatHistory (?a x) = chatHistory x" "isGenerating (?a x) = isGenerating x" for x
      by (simp_all add: setAwaiting_def)
    have "successively appendsAfterRemoval (map chatHistory (s # points ?us s))"
      using sp by blast
    then have "successively appendsAfterRemoval
        (map chatHistory (s # points ?us s @ [?a (run ?us s)]))"
      by (rule neutral_step) (simp only: last_points ch)
    then show ?thesis
      using sp unfolding sub tidy_def
      by (auto simp: points_append run_append ch)
  qed
qed

lemma settle_points:
  assumes "tidy s"
  shows "tidy (run (settle out s) s)
     \<and> (\<forall>p\<in>set (points (settle out s) s). \<forall>m\<in>set (butlast (chatHistory p)). \<not> placeholder m)
     \<and> successively appendsAfterRemoval (map chatHistory (s # points (settle out s) s))"
proof (cases "awaiting s")
  case None
  then show ?thesis using assms by (simp add: settle_def)
next
  case (Some a)
  obtain c u where a: "a = (c, u)" by (cases a)
  show ?thesis
  proof (cases "out = Pending")
    case True
    then show ?thesis using assms Some a by (simp add: settle_def)
  next
    case False
    let ?us = "drop (length (handleSendMessage c u Pending)) (handleSendMessage c u out)"
    let ?a = "setAwaiting None"
    have st: "settle out s = ?us @ [?a]"
      using Some a False by (cases out) (simp_all add: settle_def)
    have ch: "chatHistory (?a x) = chatHistory x" "isGenerating (?a x) = isGenerating x"
      for x :: "'a chat_panel"
      by (simp_all add: setAwaiting_def)
    show ?thesis
    proof (cases "blank u")
      case True
      then have "?us = []" by (simp add: handleSendMessage_def)
      then show ?thesis using assms unfolding st
        by (simp add: tidy_def ch appendsAfterRemoval_snoc)
    next
      case False
      then have nb: "\<not> blank u" .
      have good: "\<forall>m\<in>set (butlast (chatHistory s)). \<not> placeholder m"
        using assms by (simp add: tidy_def)
      note rp = rest_points [OF good \<open>out \<noteq> Pending\<close> nb, of c]
      have "successively appendsAfterRemoval (map chatHistory (s # points ?us s))"
        using rp by blast
      then have "successively appendsAfterRemoval
          (map chatHistory (s # points ?us s @ [?a (run ?us s)]))"
        by (rule neutral_step) (simp only: last_points ch)
      then show ?thesis
        using rp unfolding st tidy_def
        by (auto simp: points_append run_append ch dest: in_set_butlastD)
    qed
  qed
qed


text \<open>One event, from a state between two events.\<close>

lemma fire_points:
  assumes "tidy s"
  shows "tidy (run (fire e s) s)
     \<and> (\<forall>p\<in>set (points (fire e s) s). \<forall>m\<in>set (butlast (chatHistory p)). \<not> placeholder m)
     \<and> successively appendsAfterRemoval (map chatHistory (s # points (fire e s) s))"
proof (cases e)
  case (TypeText v)
  then show ?thesis using assms
    by (auto simp: fire_def tidy_def setter_defs appendsAfterRemoval_snoc)
next
  case PressEnter
  show ?thesis
  proof (cases "isGenerating s")
    case True
    then show ?thesis using assms PressEnter by (simp add: fire_def)
  next
    case False
    then have "fire e s = submit s" using PressEnter by (simp add: fire_def)
    then show ?thesis using submit_points [OF assms False] by simp
  qed
next
  case ClickSend
  show ?thesis
  proof (cases "isGenerating s \<or> blank (prompt s)")
    case True
    then show ?thesis using assms ClickSend by (simp add: fire_def)
  next
    case False
    then have "fire e s = submit s" using ClickSend by (simp add: fire_def)
    then show ?thesis using submit_points [OF assms] False by simp
  qed
next
  case (PickTheme t)
  show ?thesis
  proof (cases "t \<in> set themes")
    case True
    then have f: "fire e s = fst (applyTheme t)" using PickTheme by (simp add: fire_def)
    have "\<forall>p\<in>set (s # points (fst (applyTheme t)) s). chatHistory p = chatHistory s"
      using theme_points by auto
    then have "successively appendsAfterRemoval
        (map chatHistory (s # points (fst (applyTheme t)) s))"
      by (rule same_points)
    then show ?thesis using assms theme_points [of t s]
      unfolding f tidy_def by simp
  next
    case False
    then show ?thesis using assms PickTheme by (simp add: fire_def)
  qed
next
  case (Settle out)
  then have "fire e s = settle out s" by (simp add: fire_def)
  then show ?thesis using settle_points [OF assms, of out] by simp
qed

lemma session_points:
  "tidy s \<Longrightarrow>
   (\<forall>p\<in>set (session es s). \<forall>m\<in>set (butlast (chatHistory p)). \<not> placeholder m)
   \<and> successively appendsAfterRemoval (map chatHistory (s # session es s))"
proof (induction es arbitrary: s)
  case Nil
  then show ?case by simp
next
  case (Cons e es)
  let ?s1 = "run (fire e s) s"
  have step: "tidy ?s1"
    "\<forall>p\<in>set (points (fire e s) s). \<forall>m\<in>set (butlast (chatHistory p)). \<not> placeholder m"
    "successively appendsAfterRemoval (map chatHistory (s # points (fire e s) s))"
    using fire_points [OF Cons.prems, of e] by simp_all
  have rest: "\<forall>p\<in>set (session es ?s1). \<forall>m\<in>set (butlast (chatHistory p)). \<not> placeholder m"
    "successively appendsAfterRemoval (map chatHistory (?s1 # session es ?s1))"
    using Cons.IH [OF step(1)] by simp_all
  have "last (map chatHistory (s # points (fire e s) s))
      = chatHistory (last (s # points (fire e s) s))"
    by (rule last_map) simp
  then have "last (map chatHistory (s # points (fire e s) s)) = chatHistory ?s1"
    by (simp only: last_points)
  then have "successively appendsAfterRemoval
      (chatHistory s # map chatHistory (points (fire e s) s) @ map chatHistory (session es ?s1))"
    using successively_join [of appendsAfterRemoval "chatHistory s"
        "map chatHistory (points (fire e s) s)" "map chatHistory (session es ?s1)"]
      step(3) rest(2) by simp
  then show ?case using step(2) rest(1) by (simp add: ball_Un)
qed

lemma mounted_tidy: "tidy (mounted classes stored committed)"
  using theme_points [of "savedTheme (initialPanel classes stored committed)"
      "initialPanel classes stored committed"]
  by (simp add: mounted_def tidy_def useEffect_theme_def Let_def) (simp add: initialPanel_def)

text \<open>
  C4. Take the chat as it is mounted and let it handle any sequence of events (typing,
  Enter, the send button, a theme choice; each submission with any outcome of its call,
  one that never settles included). In the mounted state and after every single state
  update, the transcript holds at most one placeholder, and a placeholder is its last
  message. Whenever an update appends a message to the transcript, the transcript it
  appends to holds no placeholder: the placeholder has been removed before.
\<close>

theorem placeholder_is_unique_and_last:
  "(\<forall>p\<in>set (mounted classes stored committed # session es (mounted classes stored committed)).
      onePlaceholderLast (chatHistory p)) \<and>
   successively appendsAfterRemoval
     (map chatHistory
        (mounted classes stored committed # session es (mounted classes stored committed)))"
proof -
  let ?s0 = "mounted classes stored committed"
  have s0: "tidy ?s0" by (rule mounted_tidy)
  then have "onePlaceholderLast (chatHistory ?s0)"
    by (simp add: onePlaceholderLast_butlast tidy_def)
  then show ?thesis
    using session_points [OF s0, of es] by (simp add: onePlaceholderLast_butlast)
qed

lemma run_in_points: "us \<noteq> [] \<Longrightarrow> run us s \<in> set (points us s)"
  using last_points [of s us] last_in_set [of "points us s"]
  by (cases us) (auto split: if_splits)

theorem placeholder_is_unique_and_last_witness:
  "demoAwaiting \<in> set (mounted [] None None # session demoSession (mounted [] None None)) \<and>
   onePlaceholderLast (chatHistory demoAwaiting) \<and>
   map placeholder (chatHistory demoAwaiting) = [False, False, True]"
proof -
  let ?s0 = "mounted [] None (None :: nat option)"
  let ?s1 = "run [setPrompt (js ''hi'')] ?s0"
  let ?us = "handleSendMessage (None :: nat option) (js ''hi'') Pending @
      [setAwaiting (Some (None, js ''hi''))]"
  have idle: "\<not> isGenerating ?s0" "\<not> isGenerating ?s1" "formConfig ?s1 = None"
    "prompt ?s1 = js ''hi''"
    by (simp_all add: mounted_def initialPanel_def theme_defs setter_defs js_def Let_def)
  have nb: "\<not> blank (js ''hi'')"
    by (simp add: text_defs)
  have sub: "submit ?s1 = ?us"
    using nb by (simp only: submit_def idle if_False)
  have "session demoSession ?s0 = ?s1 # points ?us ?s1"
    using idle sub by (simp add: demoSession_def fire_def)
  moreover have "run ?us ?s1 \<in> set (points ?us ?s1)"
    by (rule run_in_points) simp
  ultimately have m: "demoAwaiting \<in> set (?s0 # session demoSession ?s0)"
    by (simp only: demoAwaiting_def list.set insert_iff simp_thms)
  have "onePlaceholderLast (chatHistory demoAwaiting)"
    using m placeholder_is_unique_and_last [of "[]" None None demoSession] by blast
  moreover have "map placeholder (chatHistory demoAwaiting) = [False, False, True]"
    by (simp add: demoAwaiting_def mounted_def initialPanel_def theme_defs handler_defs
        setter_defs text_defs Let_def userMessage_def run_append)
  ultimately show ?thesis using m by simp
qed

section \<open>Themes\<close>

lemma applyTheme_effect:
  "classList_rejects (js ''theme-'' @ name) = None \<Longrightarrow>
   classList (run (fst (applyTheme name)) s) =
     (let kept = filter (\<lambda>t. t \<notin> set themeMarkers) (classList s)
      in if js ''theme-'' @ name \<in> set kept then kept else kept @ [js ''theme-'' @ name])
   \<and> themePreset (run (fst (applyTheme name)) s) = Some name
   \<and> fontPrimary (run (fst (applyTheme name)) s) = Some (getProperty fontMap name)
   \<and> toasts (run (fst (applyTheme name)) s) =
       toasts s @ [\<lparr>title = js ''Theme Changed'',
                     description = js ''Applied '' @ name @ js '' theme and font'',
                     destructive = False\<rparr>]"
  by (simp add: applyTheme_def setter_defs Let_def)

lemma applyTheme_throw:
  "classList_rejects (js ''theme-'' @ name) \<noteq> None \<Longrightarrow>
   applyTheme name = ([classList_remove themeMarkers], Some InvalidCharacterError)"
  by (simp add: applyTheme_def rejects_theme_token split: if_splits)

lemma reload_applies:
  "reload classes committed s =
     run (fst (applyTheme (savedTheme s))) (initialPanel classes (themePreset s) committed)"
  by (simp add: reload_def mounted_def useEffect_theme_def savedTheme_def initialPanel_def
      Let_def)

lemma reload_keeps:
  assumes "name \<noteq> []" "classList_rejects (js ''theme-'' @ name) = None"
    "themePreset s = Some name"
  shows "themePreset (reload classes committed s) = Some name
    \<and> fontPrimary (reload classes committed s) = Some (getProperty fontMap name)
    \<and> js ''theme-'' @ name \<in> set (classList (reload classes committed s))"
  using assms
  by (simp add: reload_applies applyTheme_effect savedTheme_def Let_def)

lemma reloads_keep:
  assumes "name \<noteq> []" "classList_rejects (js ''theme-'' @ name) = None"
    "themePreset s = Some name"
  shows "themePreset (((reload classes committed) ^^ Suc n) s) = Some name
    \<and> fontPrimary (((reload classes committed) ^^ Suc n) s) = Some (getProperty fontMap name)
    \<and> js ''theme-'' @ name \<in> set (classList (((reload classes committed) ^^ Suc n) s))"
proof (induction n)
  case 0
  then show ?case using reload_keeps [OF assms] by simp
next
  case (Suc n)
  then have "themePreset (((reload classes committed) ^^ Suc n) s) = Some name" by simp
  from reload_keeps [OF assms(1) assms(2) this] show ?case by simp
qed

lemma reload_throws:
  assumes "classList_rejects (js ''theme-'' @ name) \<noteq> None" "themePreset s = Some name"
  shows "snd (useEffect_theme s) = Some InvalidCharacterError"
    and "reload classes committed s =
      (initialPanel classes (Some name) committed)
        \<lparr>classList := filter (\<lambda>m. m \<notin> set themeMarkers) classes\<rparr>"
proof -
  have "list_ex asciiWhitespace name"
    using assms(1) by (simp add: rejects_theme_token split: if_splits)
  then have "name \<noteq> []" by auto
  then have saved: "savedTheme s = name"
    using assms(2) by (simp add: savedTheme_def)
  show "snd (useEffect_theme s) = Some InvalidCharacterError"
    using saved by (simp add: useEffect_theme_def applyTheme_throw [OF assms(1)])
  show "reload classes committed s =
      (initialPanel classes (Some name) committed)
        \<lparr>classList := filter (\<lambda>m. m \<notin> set themeMarkers) classes\<rparr>"
    using saved assms(2)
    by (simp add: reload_applies applyTheme_throw [OF assms(1)] classList_remove_def)
       (simp add: initialPanel_def)
qed

lemma reloads_throw:
  assumes "classList_rejects (js ''theme-'' @ name) \<noteq> None" "themePreset s = Some name"
  shows "themePreset (((reload classes committed) ^^ n) s) = Some name"
proof (induction n)
  case 0
  then show ?case using assms by simp
next
  case (Suc n)
  from reload_throws(2) [OF assms(1) this] show ?case by (simp add: initialPanel_def)
qed

lemma fontMap_own: "(\<exists>font. getProperty fontMap name = Own font) \<longleftrightarrow> name \<in> set themes"
  by (auto simp: getProperty_def fontMap_def themes_def split: option.splits if_splits)

lemma fontMap_other:
  "name \<notin> set themes \<Longrightarrow>
   getProperty fontMap name = (if name \<in> set objectPrototype then Inherited name else Undefined)"
  by (simp add: getProperty_def fontMap_def themes_def)

text \<open>
  C9. \<^verbatim>\<open>classList.add\<close> accepts the token of each of the five themes, and of every name it
  accepts, \<^verbatim>\<open>applyTheme(name)\<close> stores the name under the theme key; a call that throws
  leaves the storage as it was. The mount effect applies "modern" when nothing is
  stored, and applies the stored name when one is stored (a name being a non-empty string,
  as every theme name is); whatever is stored, the key holds the name the effect applied
  once the effect is over. So after \<^verbatim>\<open>applyTheme(name)\<close> a reload, which keeps nothing but
  the storage and involves no event, runs \<^verbatim>\<open>applyTheme(name)\<close> again: the marker class of
  the theme is set, the font is the one \<^verbatim>\<open>fontMap\<close> has for the name and the name is still
  stored.
\<close>

theorem theme_survives_reload:
  fixes s :: "('c, 'z) core_scheme" and t :: "'c chat_panel"
  shows
  "(name \<in> set themes \<longrightarrow> name \<noteq> [] \<and> classList_rejects (js ''theme-'' @ name) = None) \<and>
   themePreset (run (fst (applyTheme name)) s) =
     (if classList_rejects (js ''theme-'' @ name) = None then Some name else themePreset s) \<and>
   (themePreset s = None \<longrightarrow> useEffect_theme s = applyTheme (js ''modern'')) \<and>
   (name \<noteq> [] \<longrightarrow> themePreset s = Some name \<longrightarrow> useEffect_theme s = applyTheme name) \<and>
   themePreset (run (fst (useEffect_theme s)) s) = Some (savedTheme s) \<and>
   (name \<noteq> [] \<longrightarrow> classList_rejects (js ''theme-'' @ name) = None \<longrightarrow>
      reload classes committed (run (fst (applyTheme name)) t) =
        run (fst (applyTheme name)) (initialPanel classes (Some name) committed) \<and>
      js ''theme-'' @ name
        \<in> set (classList (reload classes committed (run (fst (applyTheme name)) t))) \<and>
      fontPrimary (reload classes committed (run (fst (applyTheme name)) t)) =
        Some (getProperty fontMap name) \<and>
      themePreset (reload classes committed (run (fst (applyTheme name)) t)) = Some name)"
proof -
  have names: "name \<in> set themes \<longrightarrow>
      name \<noteq> [] \<and> classList_rejects (js ''theme-'' @ name) = None"
    using themes_accepted [of name] by (simp add: rejects_theme_token)
  have first: "themePreset (run (fst (applyTheme name)) u) =
      (if classList_rejects (js ''theme-'' @ name) = None then Some name else themePreset u)"
    for u :: "('c, 'y) core_scheme"
  proof (cases "classList_rejects (js ''theme-'' @ name) = None")
    case True
    then show ?thesis by (simp add: applyTheme_effect)
  next
    case False
    show ?thesis by (simp add: applyTheme_throw [OF False] classList_remove_def False)
  qed
  have stored: "classList_rejects (js ''theme-'' @ name) = None \<Longrightarrow>
      themePreset (run (fst (applyTheme name)) t) = Some name"
    by (simp add: applyTheme_effect)
  have again: "name \<noteq> [] \<Longrightarrow> classList_rejects (js ''theme-'' @ name) = None \<Longrightarrow>
      reload classes committed (run (fst (applyTheme name)) t) =
        run (fst (applyTheme name)) (initialPanel classes (Some name) committed)"
    by (simp add: reload_applies savedTheme_def stored)
  have kept: "name \<noteq> [] \<Longrightarrow> classList_rejects (js ''theme-'' @ name) = None \<Longrightarrow>
      js ''theme-'' @ name
        \<in> set (classList (reload classes committed (run (fst (applyTheme name)) t))) \<and>
      fontPrimary (reload classes committed (run (fst (applyTheme name)) t)) =
        Some (getProperty fontMap name) \<and>
      themePreset (reload classes committed (run (fst (applyTheme name)) t)) = Some name"
    using reload_keeps [of name "run (fst (applyTheme name)) t" classes committed] stored
    by simp
  have effect: "themePreset s = None \<longrightarrow> useEffect_theme s = applyTheme (js ''modern'')"
    "name \<noteq> [] \<longrightarrow> themePreset s = Some name \<longrightarrow> useEffect_theme s = applyTheme name"
    by (simp_all add: useEffect_theme_def savedTheme_def)
  have mount: "themePreset (run (fst (useEffect_theme s)) s) = Some (savedTheme s)"
  proof (cases "classList_rejects (js ''theme-'' @ savedTheme s) = None")
    case True
    then show ?thesis by (simp add: useEffect_theme_def applyTheme_effect)
  next
    case False
    then have "list_ex asciiWhitespace (savedTheme s)"
      by (simp add: rejects_theme_token split: if_splits)
    then have "themePreset s = Some (savedTheme s)"
      by (auto simp: savedTheme_def js_def asciiWhitespace_def split: option.splits if_splits)
    then show ?thesis
      by (simp add: useEffect_theme_def applyTheme_throw [OF False] classList_remove_def)
  qed
  show ?thesis
    using names first [of s] effect mount again kept by blast
qed

theorem theme_survives_reload_witness:
  "js ''classic'' \<in> set themes \<and> js ''classic'' \<noteq> [] \<and>
   classList_rejects (js ''theme-'' @ js ''classic'') = None \<and>
   themePreset (run (fst (applyTheme (js ''classic''))) demoChat) = Some (js ''classic'') \<and>
   classList (reload [] None (run (fst (applyTheme (js ''classic''))) demoChat)) =
     [js ''theme-classic''] \<and>
   fontPrimary (reload [] None (run (fst (applyTheme (js ''classic''))) demoChat)) =
     Some (Own ([0x27] @ js ''Merriweather'' @ [0x27] @ js '', serif'')) \<and>
   themePreset demoChat = None \<and>
   themePreset (mounted [] None (None :: nat option)) = Some (js ''modern'')"
proof -
  have i: "js ''classic'' \<in> set themes" "js ''modern'' \<in> set themes"
    by (simp_all add: themes_def)
  have a: "js ''classic'' \<noteq> []" "classList_rejects (js ''theme-'' @ js ''classic'') = None"
    using i(1) theme_survives_reload [where name = "js ''classic''" and s = demoChat
        and t = demoChat and classes = "[]" and committed = None] by blast+
  have n: "themePreset demoChat = None" "savedTheme demoChat = js ''modern''"
    by (simp_all add: demo_defs savedTheme_def)
  have m: "themePreset (mounted [] None (None :: nat option)) = Some (js ''modern'')"
    using n i(2) theme_survives_reload [where name = "js ''modern''" and s = demoChat
        and t = demoChat and classes = "[]" and committed = None]
    by (simp add: mounted_def demo_defs [symmetric] Let_def)
  have p: "themePreset (run (fst (applyTheme (js ''classic''))) demoChat) = Some (js ''classic'')"
    using a theme_survives_reload [where name = "js ''classic''" and s = demoChat
        and t = demoChat and classes = "[]" and committed = None] by simp
  have "reload [] None (run (fst (applyTheme (js ''classic''))) demoChat) =
      run (fst (applyTheme (js ''classic''))) (initialPanel [] (Some (js ''classic'')) None)"
    using a theme_survives_reload [where name = "js ''classic''" and s = demoChat
        and t = demoChat and classes = "[]" and committed = None] by blast
  then have "classList (reload [] None (run (fst (applyTheme (js ''classic''))) demoChat)) =
       [js ''theme-classic'']"
    "fontPrimary (reload [] None (run (fst (applyTheme (js ''classic''))) demoChat)) =
       Some (Own ([0x27] @ js ''Merriweather'' @ [0x27] @ js '', serif''))"
    by (simp_all add: demo_defs theme_defs setter_defs themeMarkers_def fontMap_def
        getProperty_def js_def)
  then show ?thesis
    using i(1) a n(1) m p by simp
qed

text \<open>
  Three stored names outside the five themes, each met by the mount effect. With
  "my theme" stored, \<^verbatim>\<open>classList.add\<close> rejects the token \<^verbatim>\<open>theme-my theme\<close>: the effect
  throws after it has removed the markers, no class is added, no font is set and nothing
  is notified. With "constructor" stored, the effect completes and the font it
  passes is the member \<^verbatim>\<open>constructor\<close> that \<^verbatim>\<open>fontMap\<close> inherits, not \<^verbatim>\<open>undefined\<close>. With
  the empty string stored, the name is not applied again: \<^verbatim>\<open>||\<close> takes it for nothing
  stored, so "modern" is applied and stored in its place.
\<close>

theorem stored_name_is_not_always_reapplied:
  "js ''my theme'' \<notin> set themes \<and>
   snd (useEffect_theme
          (initialPanel [js ''theme-classic''] (Some (js ''my theme'')) (None :: nat option)))
     = Some InvalidCharacterError \<and>
   classList (mounted [js ''theme-classic''] (Some (js ''my theme'')) (None :: nat option)) = [] \<and>
   fontPrimary (mounted [js ''theme-classic''] (Some (js ''my theme'')) (None :: nat option))
     = None \<and>
   toasts (mounted [js ''theme-classic''] (Some (js ''my theme'')) (None :: nat option)) = [] \<and>
   themePreset (mounted [js ''theme-classic''] (Some (js ''my theme'')) (None :: nat option))
     = Some (js ''my theme'') \<and>
   js ''constructor'' \<notin> set themes \<and>
   snd (useEffect_theme (initialPanel [] (Some (js ''constructor'')) (None :: nat option)))
     = None \<and>
   classList (mounted [] (Some (js ''constructor'')) (None :: nat option))
     = [js ''theme-constructor''] \<and>
   fontPrimary (mounted [] (Some (js ''constructor'')) (None :: nat option))
     = Some (Inherited (js ''constructor'')) \<and>
   [] \<notin> set themes \<and>
   themePreset (mounted [] (Some []) (None :: nat option)) = Some (js ''modern'') \<and>
   classList (mounted [] (Some []) (None :: nat option)) = [js ''theme-modern''] \<and>
   fontPrimary (mounted [] (Some []) (None :: nat option))
     = Some (Own ([0x27] @ js ''Poppins'' @ [0x27] @ js '', sans-serif''))"
  by (simp add: mounted_def initialPanel_def theme_defs setter_defs themeMarkers_def
      themes_def fontMap_def objectPrototype_def getProperty_def js_def Let_def)

text \<open>
  C10, amended. \<^verbatim>\<open>applyTheme\<close> validates nothing itself, but it is not total:
  \<^verbatim>\<open>classList.add\<close> rejects the token \<^verbatim>\<open>theme-<name>\<close> exactly when the name contains ASCII
  white space, and \<^verbatim>\<open>applyTheme\<close> then throws an \<^verbatim>\<open>InvalidCharacterError\<close> after it has
  removed the five theme markers and \<^verbatim>\<open>dark\<close>: nothing is stored, no font is set, nothing
  is notified. For every other name, one of the five themes or not, it completes: it
  removes the markers, adds \<^verbatim>\<open>theme-<name>\<close>, stores the name and passes \<^verbatim>\<open>fontMap[name]\<close>
  as the font. \<^verbatim>\<open>fontMap[name]\<close> is a font of the map exactly for the five themes; for
  another name it is the member inherited from \<^verbatim>\<open>Object.prototype\<close> when the name is the
  name of one, and \<^verbatim>\<open>undefined\<close> otherwise. So a stored name that is not empty, has no
  white space and is not one of the five is applied again at every mount, with a value
  that is no font; a stored name with white space makes the effect of every mount throw
  and stays stored; a stored empty string is replaced by "modern" at the next mount.
\<close>

theorem theme_name_is_not_validated:
  fixes s :: "('c, 'z) core_scheme" and t :: "'c chat_panel"
  shows
  "classList_rejects (js ''theme-'' @ name) =
     (if list_ex asciiWhitespace name then Some InvalidCharacterError else None) \<and>
   (classList_rejects (js ''theme-'' @ name) = None \<longrightarrow>
      snd (applyTheme name :: ('c, 'z) themeScript) = None \<and>
      classList (run (fst (applyTheme name)) s) =
        (let kept = filter (\<lambda>m. m \<notin> set themeMarkers) (classList s)
         in if js ''theme-'' @ name \<in> set kept then kept else kept @ [js ''theme-'' @ name]) \<and>
      js ''theme-'' @ name \<in> set (classList (run (fst (applyTheme name)) s)) \<and>
      (\<forall>m\<in>set themeMarkers.
         m \<noteq> js ''theme-'' @ name \<longrightarrow> m \<notin> set (classList (run (fst (applyTheme name)) s))) \<and>
      themePreset (run (fst (applyTheme name)) s) = Some name \<and>
      fontPrimary (run (fst (applyTheme name)) s) = Some (getProperty fontMap name) \<and>
      toasts (run (fst (applyTheme name)) s) =
        toasts s @ [\<lparr>title = js ''Theme Changed'',
                      description = js ''Applied '' @ name @ js '' theme and font'',
                      destructive = False\<rparr>]) \<and>
   (classList_rejects (js ''theme-'' @ name) \<noteq> None \<longrightarrow>
      snd (applyTheme name :: ('c, 'z) themeScript) = Some InvalidCharacterError \<and>
      run (fst (applyTheme name)) s =
        s\<lparr>classList := filter (\<lambda>m. m \<notin> set themeMarkers) (classList s)\<rparr>) \<and>
   ((\<exists>font. getProperty fontMap name = Own font) \<longleftrightarrow> name \<in> set themes) \<and>
   (name \<notin> set themes \<longrightarrow>
      getProperty fontMap name =
        (if name \<in> set objectPrototype then Inherited name else Undefined)) \<and>
   (name \<noteq> [] \<longrightarrow> name \<notin> set themes \<longrightarrow> themePreset t = Some name \<longrightarrow>
    classList_rejects (js ''theme-'' @ name) = None \<longrightarrow>
      (\<forall>n. themePreset ((reload classes committed ^^ Suc n) t) = Some name \<and>
           fontPrimary ((reload classes committed ^^ Suc n) t) =
             Some (if name \<in> set objectPrototype then Inherited name else Undefined) \<and>
           js ''theme-'' @ name \<in> set (classList ((reload classes committed ^^ Suc n) t)))) \<and>
   (themePreset t = Some name \<longrightarrow> classList_rejects (js ''theme-'' @ name) \<noteq> None \<longrightarrow>
      (\<forall>n. snd (useEffect_theme ((reload classes committed ^^ n) t))
             = Some InvalidCharacterError \<and>
           (reload classes committed ^^ Suc n) t =
             (initialPanel classes (Some name) committed)
               \<lparr>classList := filter (\<lambda>m. m \<notin> set themeMarkers) classes\<rparr>)) \<and>
   (themePreset t = Some [] \<longrightarrow>
      reload classes committed t =
        run (fst (applyTheme (js ''modern''))) (initialPanel classes (Some []) committed) \<and>
      themePreset (reload classes committed t) = Some (js ''modern''))"
proof -
  have accepted: "classList_rejects (js ''theme-'' @ name) = None \<longrightarrow>
      snd (applyTheme name :: ('c, 'z) themeScript) = None \<and>
      classList (run (fst (applyTheme name)) s) =
        (let kept = filter (\<lambda>m. m \<notin> set themeMarkers) (classList s)
         in if js ''theme-'' @ name \<in> set kept then kept else kept @ [js ''theme-'' @ name]) \<and>
      js ''theme-'' @ name \<in> set (classList (run (fst (applyTheme name)) s)) \<and>
      (\<forall>m\<in>set themeMarkers.
         m \<noteq> js ''theme-'' @ name \<longrightarrow> m \<notin> set (classList (run (fst (applyTheme name)) s))) \<and>
      themePreset (run (fst (applyTheme name)) s) = Some name \<and>
      fontPrimary (run (fst (applyTheme name)) s) = Some (getProperty fontMap name) \<and>
      toasts (run (fst (applyTheme name)) s) =
        toasts s @ [\<lparr>title = js ''Theme Changed'',
                      description = js ''Applied '' @ name @ js '' theme and font'',
                      destructive = False\<rparr>]"
  proof
    assume ok: "classList_rejects (js ''theme-'' @ name) = None"
    have "snd (applyTheme name :: ('c, 'z) themeScript) = None"
      using ok by (simp add: applyTheme_def)
    moreover have "js ''theme-'' @ name \<in> set (classList (run (fst (applyTheme name)) s))"
      "\<forall>m\<in>set themeMarkers.
         m \<noteq> js ''theme-'' @ name \<longrightarrow> m \<notin> set (classList (run (fst (applyTheme name)) s))"
      using ok by (auto simp: applyTheme_effect Let_def)
    ultimately show "snd (applyTheme name :: ('c, 'z) themeScript) = None \<and>
      classList (run (fst (applyTheme name)) s) =
        (let kept = filter (\<lambda>m. m \<notin> set themeMarkers) (classList s)
         in if js ''theme-'' @ name \<in> set kept then kept else kept @ [js ''theme-'' @ name]) \<and>
      js ''theme-'' @ name \<in> set (classList (run (fst (applyTheme name)) s)) \<and>
      (\<forall>m\<in>set themeMarkers.
         m \<noteq> js ''theme-'' @ name \<longrightarrow> m \<notin> set (classList (run (fst (applyTheme name)) s))) \<and>
      themePreset (run (fst (applyTheme name)) s) = Some name \<and>
      fontPrimary (run (fst (applyTheme name)) s) = Some (getProperty fontMap name) \<and>
      toasts (run (fst (applyTheme name)) s) =
        toasts s @ [\<lparr>title = js ''Theme Changed'',
                      description = js ''Applied '' @ name @ js '' theme and font'',
                      destructive = False\<rparr>]"
      using applyTheme_effect [OF ok, where s = s] by blast
  qed
  have rejected: "classList_rejects (js ''theme-'' @ name) \<noteq> None \<longrightarrow>
      snd (applyTheme name :: ('c, 'z) themeScript) = Some InvalidCharacterError \<and>
      run (fst (applyTheme name)) s =
        s\<lparr>classList := filter (\<lambda>m. m \<notin> set themeMarkers) (classList s)\<rparr>"
  proof
    assume no: "classList_rejects (js ''theme-'' @ name) \<noteq> None"
    show "snd (applyTheme name :: ('c, 'z) themeScript) = Some InvalidCharacterError \<and>
      run (fst (applyTheme name)) s =
        s\<lparr>classList := filter (\<lambda>m. m \<notin> set themeMarkers) (classList s)\<rparr>"
      by (simp add: applyTheme_throw [OF no] classList_remove_def)
  qed
  have other: "name \<notin> set themes \<longrightarrow>
      getProperty fontMap name =
        (if name \<in> set objectPrototype then Inherited name else Undefined)"
    using fontMap_other [of name] by blast
  have "name \<noteq> [] \<Longrightarrow> name \<notin> set themes \<Longrightarrow> themePreset t = Some name \<Longrightarrow>
      classList_rejects (js ''theme-'' @ name) = None \<Longrightarrow>
      themePreset ((reload classes committed ^^ Suc n) t) = Some name \<and>
      fontPrimary ((reload classes committed ^^ Suc n) t) =
        Some (if name \<in> set objectPrototype then Inherited name else Undefined) \<and>
      js ''theme-'' @ name \<in> set (classList ((reload classes committed ^^ Suc n) t))" for n
    using reloads_keep [where name = name and s = t and classes = classes
        and committed = committed and n = n] fontMap_other [of name] by simp
  then have again: "name \<noteq> [] \<longrightarrow> name \<notin> set themes \<longrightarrow> themePreset t = Some name \<longrightarrow>
      classList_rejects (js ''theme-'' @ name) = None \<longrightarrow>
      (\<forall>n. themePreset ((reload classes committed ^^ Suc n) t) = Some name \<and>
           fontPrimary ((reload classes committed ^^ Suc n) t) =
             Some (if name \<in> set objectPrototype then Inherited name else Undefined) \<and>
           js ''theme-'' @ name \<in> set (classList ((reload classes committed ^^ Suc n) t)))"
    by blast
  have "themePreset t = Some name \<Longrightarrow> classList_rejects (js ''theme-'' @ name) \<noteq> None \<Longrightarrow>
      snd (useEffect_theme ((reload classes committed ^^ n) t)) = Some InvalidCharacterError \<and>
      (reload classes committed ^^ Suc n) t =
        (initialPanel classes (Some name) committed)
          \<lparr>classList := filter (\<lambda>m. m \<notin> set themeMarkers) classes\<rparr>" for n
  proof -
    assume st: "themePreset t = Some name"
      and no: "classList_rejects (js ''theme-'' @ name) \<noteq> None"
    have k: "themePreset ((reload classes committed ^^ n) t) = Some name"
      using reloads_throw [OF no st] .
    show ?thesis
      using reload_throws(1) [OF no k]
        reload_throws(2) [OF no k, where classes = classes and committed = committed]
      by simp
  qed
  then have throws: "themePreset t = Some name \<longrightarrow>
      classList_rejects (js ''theme-'' @ name) \<noteq> None \<longrightarrow>
      (\<forall>n. snd (useEffect_theme ((reload classes committed ^^ n) t))
             = Some InvalidCharacterError \<and>
           (reload classes committed ^^ Suc n) t =
             (initialPanel classes (Some name) committed)
               \<lparr>classList := filter (\<lambda>m. m \<notin> set themeMarkers) classes\<rparr>)"
    by blast
  have "classList_rejects (js ''theme-'' @ js ''modern'') = None"
    by (simp add: rejects_theme_token) (simp add: js_def asciiWhitespace_def)
  then have empty: "themePreset t = Some [] \<longrightarrow>
      reload classes committed t =
        run (fst (applyTheme (js ''modern''))) (initialPanel classes (Some []) committed) \<and>
      themePreset (reload classes committed t) = Some (js ''modern'')"
    by (simp add: reload_applies savedTheme_def applyTheme_effect)
  show ?thesis
    using rejects_theme_token [of name] accepted rejected fontMap_own [of name] other again
      throws empty
    by blast
qed

theorem theme_name_is_not_validated_witness:
  "classList_rejects (js ''theme-'' @ js ''neon'') = None \<and>
   js ''neon'' \<noteq> [] \<and> js ''neon'' \<notin> set themes \<and>
   themePreset (demoChat\<lparr>themePreset := Some (js ''neon'')\<rparr>) = Some (js ''neon'') \<and>
   themePreset ((reload [] None ^^ Suc (Suc 0)) (demoChat\<lparr>themePreset := Some (js ''neon'')\<rparr>))
     = Some (js ''neon'') \<and>
   fontPrimary ((reload [] None ^^ Suc (Suc 0)) (demoChat\<lparr>themePreset := Some (js ''neon'')\<rparr>))
     = Some Undefined \<and>
   classList (run (fst (applyTheme (js ''neon'')))
      (demoChat\<lparr>classList := [js ''theme-classic'', js ''wide'', js ''dark'']\<rparr>)) =
     [js ''wide'', js ''theme-neon''] \<and>
   classList_rejects (js ''theme-'' @ js ''my theme'') \<noteq> None \<and>
   themePreset (demoChat\<lparr>themePreset := Some (js ''my theme'')\<rparr>) = Some (js ''my theme'') \<and>
   snd (useEffect_theme
          ((reload [] None ^^ Suc 0) (demoChat\<lparr>themePreset := Some (js ''my theme'')\<rparr>)))
     = Some InvalidCharacterError \<and>
   themePreset ((reload [] None ^^ Suc (Suc 0)) (demoChat\<lparr>themePreset := Some (js ''my theme'')\<rparr>))
     = Some (js ''my theme'') \<and>
   themePreset (demoChat\<lparr>themePreset := Some []\<rparr>) = Some [] \<and>
   themePreset (reload [] None (demoChat\<lparr>themePreset := Some []\<rparr>)) = Some (js ''modern'')"
proof -
  have w: "list_ex asciiWhitespace (js ''my theme'')" "\<not> list_ex asciiWhitespace (js ''neon'')"
    by (simp_all add: js_def asciiWhitespace_def)
  have r: "classList_rejects (js ''theme-'' @ js ''neon'') = None"
    "classList_rejects (js ''theme-'' @ js ''my theme'') \<noteq> None"
    using w
      theme_name_is_not_validated [where name = "js ''neon''" and s = demoChat
        and t = demoChat and classes = "[]" and committed = None]
      theme_name_is_not_validated [where name = "js ''my theme''" and s = demoChat
        and t = demoChat and classes = "[]" and committed = None]
    by simp_all
  have c: "classList (run (fst (applyTheme (js ''neon'')))
      (demoChat\<lparr>classList := [js ''theme-classic'', js ''wide'', js ''dark'']\<rparr>)) =
     [js ''wide'', js ''theme-neon'']"
    using r(1) theme_name_is_not_validated [where name = "js ''neon''"
        and s = "demoChat\<lparr>classList := [js ''theme-classic'', js ''wide'', js ''dark'']\<rparr>"
        and t = demoChat and classes = "[]" and committed = None]
    by (simp add: themeMarkers_def js_def)
  have a: "js ''neon'' \<noteq> []" "js ''neon'' \<notin> set themes"
    "js ''neon'' \<notin> set objectPrototype"
    "themePreset (demoChat\<lparr>themePreset := Some (js ''neon'')\<rparr>) = Some (js ''neon'')"
    "themePreset (demoChat\<lparr>themePreset := Some (js ''my theme'')\<rparr>) = Some (js ''my theme'')"
    "themePreset (demoChat\<lparr>themePreset := Some []\<rparr>) = Some []"
    by (simp_all add: js_def themes_def objectPrototype_def)
  have "\<forall>n. themePreset ((reload [] None ^^ Suc n)
          (demoChat\<lparr>themePreset := Some (js ''neon'')\<rparr>)) = Some (js ''neon'') \<and>
        fontPrimary ((reload [] None ^^ Suc n)
          (demoChat\<lparr>themePreset := Some (js ''neon'')\<rparr>)) =
          Some (if js ''neon'' \<in> set objectPrototype then Inherited (js ''neon'')
                else Undefined) \<and>
        js ''theme-'' @ js ''neon'' \<in> set (classList ((reload [] None ^^ Suc n)
          (demoChat\<lparr>themePreset := Some (js ''neon'')\<rparr>)))"
    using a r(1)
      theme_name_is_not_validated [where name = "js ''neon''" and s = demoChat
        and t = "demoChat\<lparr>themePreset := Some (js ''neon'')\<rparr>" and classes = "[]"
        and committed = None]
    by blast
  from this [rule_format, of "Suc 0"]
  have n: "themePreset ((reload [] None ^^ Suc (Suc 0))
        (demoChat\<lparr>themePreset := Some (js ''neon'')\<rparr>)) = Some (js ''neon'')"
    "fontPrimary ((reload [] None ^^ Suc (Suc 0))
        (demoChat\<lparr>themePreset := Some (js ''neon'')\<rparr>)) = Some Undefined"
    using a(3) by simp_all
  have m: "snd (useEffect_theme
          ((reload [] None ^^ Suc 0) (demoChat\<lparr>themePreset := Some (js ''my theme'')\<rparr>)))
     = Some InvalidCharacterError"
    "(reload [] None ^^ Suc (Suc 0)) (demoChat\<lparr>themePreset := Some (js ''my theme'')\<rparr>) =
       (initialPanel [] (Some (js ''my theme'')) None)
         \<lparr>classList := filter (\<lambda>m. m \<notin> set themeMarkers) []\<rparr>"
    using a r(2)
      theme_name_is_not_validated [where name = "js ''my theme''" and s = demoChat
        and t = "demoChat\<lparr>themePreset := Some (js ''my theme'')\<rparr>" and classes = "[]"
        and committed = None]
    by blast+
  have e: "themePreset (reload [] None (demoChat\<lparr>themePreset := Some []\<rparr>))
      = Some (js ''modern'')"
    using a
      theme_name_is_not_validated [where name = "js ''neon''" and s = demoChat
        and t = "demoChat\<lparr>themePreset := Some []\<rparr>" and classes = "[]"
        and committed = None]
    by blast
  have "themePreset ((reload [] None ^^ Suc (Suc 0))
        (demoChat\<lparr>themePreset := Some (js ''my theme'')\<rparr>)) = Some (js ''my theme'')"
    by (simp only: m(2)) (simp add: initialPanel_def)
  then show ?thesis
    using r c a n m(1) e by simp
qed

end
